theory Spec2Isabelle
  imports Main
begin

section \<open>Values\<close>

text \<open>
  The JavaScript values that the wrapper hands to its caller or stores: \<open>undefined\<close>,
  \<open>null\<close>, booleans, numbers, strings, plain objects, \<open>new Error(message)\<close>, a
  \<open>TypeError\<close> and the engine's \<open>DOMException\<close>s (by name).
\<close>

datatype dom_exception =
    NotFoundError | ConstraintError | InvalidAccessError | InvalidStateError
  | DataError | VersionError | AbortError | UnknownError

datatype jsval =
    Undefined
  | Null
  | JBool bool
  | JNum int
  | JStr string
  | JObject "(string \<times> jsval) list"
  | JError string
  | JTypeError
  | JDOMException dom_exception

text \<open>\<open>IDBValidKey\<close>: the numbers and strings (dates, buffers and arrays are left out).\<close>

datatype idb_key = KNum int | KStr string

fun key_value :: "idb_key \<Rightarrow> jsval" where
  "key_value (KNum n) = JNum n"
| "key_value (KStr s) = JStr s"

fun value_key :: "jsval \<Rightarrow> idb_key option" where
  "value_key (JNum n) = Some (KNum n)"
| "value_key (JStr s) = Some (KStr s)"
| "value_key _ = None"

text \<open>
  \<open>IDBValidKey | IDBKeyRange\<close>: a key, or a range given by its \<open>includes\<close> method.
\<close>

datatype query = QKey idb_key | QRange "idb_key \<Rightarrow> bool"

fun query_includes :: "query \<Rightarrow> idb_key \<Rightarrow> bool" where
  "query_includes (QKey k) k' = (k = k')"
| "query_includes (QRange r) k' = r k'"

section \<open>The schema declaration (\<open>@types/src/db.d.ts\<close>)\<close>

text \<open>Optional fields (\<open>field?: T\<close>) are options; \<open>None\<close> is \<open>undefined\<close>.\<close>

record index_parameters =
  unique :: "bool option"
  multiEntry :: "bool option"

record webdb_index =
  idx_name :: string
  idx_keyPath :: string
  idx_options :: "index_parameters option"

record store_options =
  keyPath :: "string option"
  autoIncrement :: "bool option"

record store_configs =
  recreate :: "bool option"
  indexes :: "webdb_index list option"

record webdb_object_store =
  os_name :: string
  os_options :: "store_options option"
  os_configs :: "store_configs option"

record setup_options =
  objectStores :: "webdb_object_store list option"

section \<open>The storage engine's database\<close>

text \<open>
  Modelled from the spec: the storage engine (the browser's IndexedDB) is an external
  collaborator with no source in the repository; where the spec is silent the model
  follows the interface that the source calls. Its database is a set of named stores;
  a store has its creation options, its named secondary indexes in the order of their
  creation, its records by primary key and a key generator; \<open>store_indexes\<close> and
  \<open>store_records\<close> look an index up by name and a record by key. An index is its
  declaration: the records it holds, and their keys in it, follow from the records of
  the store. \<open>idb_database\<close> is the open connection (\<open>IDBDatabase\<close>): the stores it is
  connected to and its \<open>onversionchange\<close> property (whether a handler is set). Key
  paths are opaque strings: the engine's syntax checks on them are outside the model;
  its name checks are inside. Values have no arrays, so a multi-entry index holds one
  key for a record, as any other.
\<close>

record idb_index =
  index_keyPath :: string
  index_unique :: bool
  index_multiEntry :: bool

record object_store =
  store_keyPath :: "string option"
  store_autoIncrement :: bool
  store_index_list :: "(string \<times> idb_index) list"
  store_record_list :: "(idb_key \<times> jsval) list"
  store_keygen :: nat

definition store_indexes :: "object_store \<Rightarrow> (string \<rightharpoonup> idb_index)" where
  "store_indexes s = map_of (store_index_list s)"

definition store_records :: "object_store \<Rightarrow> (idb_key \<rightharpoonup> jsval)" where
  "store_records s = map_of (store_record_list s)"

record idb_database =
  stores :: "string \<rightharpoonup> object_store"
  onversionchange :: bool

text \<open>Modelled from the spec: \<open>db.objectStoreNames.contains(name)\<close>.\<close>

definition contains :: "idb_database \<Rightarrow> string \<Rightarrow> bool" where
  "contains d n = (stores d n \<noteq> None)"

text \<open>
  Modelled from the spec: \<open>db.deleteObjectStore(name)\<close> removes the store with its
  records and indexes; the engine throws \<open>NotFoundError\<close> when there is none.
\<close>

definition deleteObjectStore :: "idb_database \<Rightarrow> string \<Rightarrow> dom_exception + idb_database" where
  "deleteObjectStore d n =
     (if contains d n then Inr (d\<lparr>stores := (stores d)(n := None)\<rparr>)
      else Inl NotFoundError)"

text \<open>
  Modelled from the spec: \<open>db.createObjectStore(name, options)\<close> adds an empty store
  with the given primary-key path and auto-increment flag (absent options: no key path,
  no key generator); the engine throws \<open>ConstraintError\<close> when the name is taken.
\<close>

definition new_store :: "store_options option \<Rightarrow> object_store" where
  "new_store opts =
     \<lparr>store_keyPath = (case opts of None \<Rightarrow> None | Some o' \<Rightarrow> keyPath o'),
      store_autoIncrement = (case opts of None \<Rightarrow> False | Some o' \<Rightarrow> autoIncrement o' = Some True),
      store_index_list = [],
      store_record_list = [],
      store_keygen = 1\<rparr>"

definition createObjectStore ::
  "idb_database \<Rightarrow> string \<Rightarrow> store_options option \<Rightarrow> dom_exception + idb_database" where
  "createObjectStore d n opts =
     (if contains d n then Inl ConstraintError
      else Inr (d\<lparr>stores := (stores d)(n \<mapsto> new_store opts)\<rparr>))"

text \<open>
  Modelled from the spec: \<open>store.createIndex(name, keyPath, options)\<close> adds the index to
  the store (absent options: not unique, not multi-entry); the engine throws
  \<open>ConstraintError\<close> when the store already has an index of that name.
\<close>

definition new_index :: "string \<Rightarrow> index_parameters option \<Rightarrow> idb_index" where
  "new_index kp opts =
     \<lparr>index_keyPath = kp,
      index_unique = (case opts of None \<Rightarrow> False | Some o' \<Rightarrow> unique o' = Some True),
      index_multiEntry = (case opts of None \<Rightarrow> False | Some o' \<Rightarrow> multiEntry o' = Some True)\<rparr>"

definition createIndex ::
  "object_store \<Rightarrow> string \<Rightarrow> string \<Rightarrow> index_parameters option \<Rightarrow> dom_exception + object_store" where
  "createIndex s n kp opts =
     (if store_indexes s n \<noteq> None then Inl ConstraintError
      else Inr (s\<lparr>store_index_list := store_index_list s @ [(n, new_index kp opts)]\<rparr>))"

section \<open>The handle and its schema-upgrade step (\<open>src/db.ts\<close>)\<close>

text \<open>
  The optional lifecycle hooks are caller code: the handle only tests which are present.
\<close>

record hooks =
  onBlocked :: bool
  onVersionChange :: bool
  onError :: bool

text \<open>
  \<open>IDBOpenDBRequest\<close>: which of its four handler properties the constructor has set.
\<close>

record open_request =
  onupgradeneeded :: bool
  onsuccess :: bool
  onblocked :: bool
  onerror :: bool

text \<open>
  The instance of \<open>WebDB\<close>: the constructor's arguments \<open>name\<close>, \<open>version\<close>, \<open>setup\<close>
  (here \<open>db_name\<close>, \<open>db_version\<close>, \<open>db_setup\<close>) and \<open>handlers\<close>, the open request and
  the connection, \<open>undefined\<close> until a handler of the open request assigns it.
\<close>

record webdb =
  db_name :: string
  db_version :: nat
  db_setup :: "setup_options option"
  handlers :: "hooks option"
  databaseRequest :: open_request
  db :: "idb_database option"

text \<open>
  \<open>configs.indexes.forEach((idx) => store.createIndex(idx.name, idx.keyPath, idx.options))\<close>:
  an exception of the engine ends the loop.
\<close>

fun createIndexes :: "object_store \<Rightarrow> webdb_index list \<Rightarrow> dom_exception + object_store" where
  "createIndexes s [] = Inr s"
| "createIndexes s (idx # idxs) =
     (case createIndex s (idx_name idx) (idx_keyPath idx) (idx_options idx) of
        Inl e \<Rightarrow> Inl e
      | Inr s' \<Rightarrow> createIndexes s' idxs)"

text \<open>
  The body of the \<open>for ... of this.setup.objectStores\<close> loop, for one descriptor
  \<open>{ name, options, configs }\<close>. \<open>configs?.recreate\<close> is truthy only when it is \<open>true\<close>;
  \<open>configs?.indexes\<close> is truthy whenever the array is there. The store that
  \<open>createObjectStore\<close> returns is the one in the database, so the indexes created on it
  are written back.
\<close>

definition wants_recreate :: "webdb_object_store \<Rightarrow> bool" where
  "wants_recreate x = (case os_configs x of None \<Rightarrow> False | Some c \<Rightarrow> recreate c = Some True)"

definition declared_indexes :: "webdb_object_store \<Rightarrow> webdb_index list" where
  "declared_indexes x =
     (case os_configs x of None \<Rightarrow> []
      | Some c \<Rightarrow> (case indexes c of None \<Rightarrow> [] | Some idxs \<Rightarrow> idxs))"

definition upgradeStore :: "idb_database \<Rightarrow> webdb_object_store \<Rightarrow> dom_exception + idb_database" where
  "upgradeStore d x =
     (case (if wants_recreate x \<and> contains d (os_name x)
            then deleteObjectStore d (os_name x) else Inr d) of
        Inl e \<Rightarrow> Inl e
      | Inr d1 \<Rightarrow>
          if \<not> contains d1 (os_name x) then
            (case createObjectStore d1 (os_name x) (os_options x) of
               Inl e \<Rightarrow> Inl e
             | Inr d2 \<Rightarrow>
                 (case stores d2 (os_name x) of
                    None \<Rightarrow> Inl NotFoundError
                  | Some s \<Rightarrow>
                      (case createIndexes s (declared_indexes x) of
                         Inl e \<Rightarrow> Inl e
                       | Inr s' \<Rightarrow> Inr (d2\<lparr>stores := (stores d2)(os_name x \<mapsto> s')\<rparr>))))
          else Inr d1)"

fun upgradeStores :: "idb_database \<Rightarrow> webdb_object_store list \<Rightarrow> dom_exception + idb_database" where
  "upgradeStores d [] = Inr d"
| "upgradeStores d (x # xs) =
     (case upgradeStore d x of Inl e \<Rightarrow> Inl e | Inr d' \<Rightarrow> upgradeStores d' xs)"

text \<open>
  \<open>if (this.setup?.objectStores) { for ... }\<close>: the schema-application step on the
  connection that the open request delivers.
\<close>

definition applySchema :: "setup_options option \<Rightarrow> idb_database \<Rightarrow> dom_exception + idb_database" where
  "applySchema su d =
     (case su of None \<Rightarrow> Inr d
      | Some s \<Rightarrow> (case objectStores s of None \<Rightarrow> Inr d | Some xs \<Rightarrow> upgradeStores d xs))"

section \<open>Construction and the open handshake (\<open>src/db.ts\<close>)\<close>

text \<open>
  The host: \<open>window.indexedDB\<close> is there or not (\<open>"indexedDB" in window\<close>); when it
  is, it has the open requests issued so far, as (name, version).
\<close>

record window =
  indexedDB :: "(string \<times> nat) list option"

text \<open>
  The four private methods that the constructor calls. Each sets one handler property of
  \<open>this.databaseRequest\<close>; \<open>handleBlocked\<close> and \<open>handleError\<close> only when the hook is
  there (\<open>this.handlers?.onBlocked\<close>). The handlers' bodies follow below.
\<close>

definition has_hook :: "(hooks \<Rightarrow> bool) \<Rightarrow> webdb \<Rightarrow> bool" where
  "has_hook f this = (case handlers this of None \<Rightarrow> False | Some h \<Rightarrow> f h)"

definition handleUpgradeNeeded :: "webdb \<Rightarrow> webdb" where
  "handleUpgradeNeeded this =
     this\<lparr>databaseRequest := (databaseRequest this)\<lparr>onupgradeneeded := True\<rparr>\<rparr>"

definition handleSuccess :: "webdb \<Rightarrow> webdb" where
  "handleSuccess this =
     this\<lparr>databaseRequest := (databaseRequest this)\<lparr>onsuccess := True\<rparr>\<rparr>"

definition handleBlocked :: "webdb \<Rightarrow> webdb" where
  "handleBlocked this =
     (if has_hook onBlocked this
      then this\<lparr>databaseRequest := (databaseRequest this)\<lparr>onblocked := True\<rparr>\<rparr>
      else this)"

definition handleError :: "webdb \<Rightarrow> webdb" where
  "handleError this =
     (if has_hook onError this
      then this\<lparr>databaseRequest := (databaseRequest this)\<lparr>onerror := True\<rparr>\<rparr>
      else this)"

text \<open>
  \<open>new WebDB(name, version, setup, handlers)\<close>: the thrown value or the new instance,
  and the host afterwards. Modelled from the spec: \<open>indexedDB.open(name, version)\<close>
  records the request; the engine throws a \<open>TypeError\<close> for version 0.
\<close>

definition constructor ::
  "window \<Rightarrow> string \<Rightarrow> nat \<Rightarrow> setup_options option \<Rightarrow> hooks option \<Rightarrow> (jsval + webdb) \<times> window" where
  "constructor w n v su hs =
     (case indexedDB w of
        None \<Rightarrow> (Inl (JError ''No support for indexedDB!''), w)
      | Some reqs \<Rightarrow>
          if v = 0 then (Inl JTypeError, w)
          else
            (Inr (handleError (handleBlocked (handleSuccess (handleUpgradeNeeded
               \<lparr>db_name = n, db_version = v, db_setup = su, handlers = hs,
                databaseRequest = \<lparr>onupgradeneeded = False, onsuccess = False,
                                   onblocked = False, onerror = False\<rparr>,
                db = None\<rparr>)))),
             w\<lparr>indexedDB := Some (reqs @ [(n, v)])\<rparr>))"

text \<open>
  The calls of the caller's hooks, with their arguments (\<open>null\<close> is \<open>None\<close>).
\<close>

datatype hook_call =
    CallOnBlocked nat "nat option"
  | CallOnVersionChange nat "nat option"
  | CallOnError jsval

text \<open>
  The body of \<open>onupgradeneeded\<close>, given \<open>this.databaseRequest.result\<close>: the instance
  afterwards and the exception that left the handler, if any. The connection is one
  object, so \<open>this.db\<close> sees the stores that the loop creates; when the handler throws the
  engine aborts the upgrade and the connection has its former stores again.
\<close>

definition upgradeneeded :: "webdb \<Rightarrow> idb_database \<Rightarrow> webdb \<times> dom_exception option" where
  "upgradeneeded this result =
     (case applySchema (db_setup this) result of
        Inl e \<Rightarrow> (this\<lparr>db := Some result\<rparr>, Some e)
      | Inr d \<Rightarrow> (this\<lparr>db := Some d\<rparr>, None))"

text \<open>
  The body of \<open>onsuccess\<close>: attaches the connection and, when the hook is there, sets its
  \<open>onversionchange\<close>.
\<close>

definition success :: "webdb \<Rightarrow> idb_database \<Rightarrow> webdb" where
  "success this result =
     this\<lparr>db := Some (if has_hook onVersionChange this
                     then result\<lparr>onversionchange := True\<rparr> else result)\<rparr>"

text \<open>
  The bodies of \<open>db.onversionchange\<close>, \<open>onblocked\<close> and \<open>onerror\<close>: each calls its hook
  when it is (still) there.
\<close>

definition versionchange :: "webdb \<Rightarrow> nat \<Rightarrow> nat option \<Rightarrow> webdb \<times> hook_call list" where
  "versionchange this old new =
     (this, if db this \<noteq> None \<and> has_hook onVersionChange this
            then [CallOnVersionChange old new] else [])"

definition blocked :: "webdb \<Rightarrow> nat \<Rightarrow> nat option \<Rightarrow> webdb \<times> hook_call list" where
  "blocked this old new =
     (this, if has_hook onBlocked this then [CallOnBlocked old new] else [])"

definition error :: "webdb \<Rightarrow> jsval \<Rightarrow> webdb \<times> hook_call list" where
  "error this e = (this, if has_hook onError this then [CallOnError e] else [])"

text \<open>
  Modelled from the spec: the engine's side of the open handshake (section 4.1), for a
  database stored at version \<open>v\<close> (0 when it was never created) with the stores of \<open>d\<close>,
  and no other connection open. A requested version above \<open>v\<close> fires \<open>upgradeneeded\<close>
  and, once that step has returned, commits it and fires \<open>success\<close>; a handler that
  throws aborts the upgrade, nothing is stored and \<open>error\<close> fires. The same version
  fires \<open>success\<close> alone; a lower one fires \<open>error\<close>. An event reaches the instance only
  through a handler property that is set. The result is the instance, the stored version
  and the stored database afterwards.
\<close>

definition open_handshake :: "webdb \<Rightarrow> nat \<Rightarrow> idb_database \<Rightarrow> webdb \<times> nat \<times> idb_database" where
  "open_handshake this v d =
     (let rq = databaseRequest this in
      if db_version this < v then
        (if onerror rq then fst (error this (JDOMException VersionError)) else this, v, d)
      else if v < db_version this then
        (if onupgradeneeded rq then
           (case upgradeneeded this d of
              (this1, Some e) \<Rightarrow>
                (if onerror rq then fst (error this1 (JDOMException AbortError)) else this1, v, d)
            | (this1, None) \<Rightarrow>
                (case db this1 of
                   None \<Rightarrow> (this1, v, d)
                 | Some d1 \<Rightarrow>
                     (if onsuccess rq then success this1 d1 else this1, db_version this, d1)))
         else (if onsuccess rq then success this d else this, db_version this, d))
      else (if onsuccess rq then success this d else this, v, d))"

section \<open>Promises, requests and events\<close>

text \<open>
  A promise is pending or settled, once: a later \<open>resolve\<close> or \<open>reject\<close> does nothing.
\<close>

datatype promise = Pending | Resolved jsval | Rejected jsval

definition settle :: "promise \<Rightarrow> promise \<Rightarrow> promise" where
  "settle p s = (case p of Pending \<Rightarrow> s | _ \<Rightarrow> p)"

datatype mode = Readonly | Readwrite

text \<open>\<open>string | Iterable<string>\<close> (for \<open>clear\<close>: \<open>string | string[]\<close>).\<close>

datatype store_names = Name string | Names "string list"

text \<open>
  The requests that the operations issue on a store: the store's name and the
  arguments; for a read, the index it goes through, if any.
\<close>

datatype read_request =
    Get string "string option" query
  | GetAll string "string option" "query option"

datatype write_request =
    Add string jsval "idb_key option"
  | Put string jsval "idb_key option"
  | Delete string query
  | Clear string

datatype request = Read read_request | Write write_request

text \<open>
  The events that the engine fires at what an operation has created: \<open>success\<close> at the
  request, with \<open>request.result\<close>; \<open>error\<close> at the request, which bubbles to its
  transaction, with \<open>request.error\<close> and with \<open>transaction.error\<close> as a handler reads it
  then; \<open>complete\<close> and \<open>abort\<close> at the transaction.
\<close>

datatype event = Success jsval | Error jsval jsval | Complete | Abort

text \<open>
  The arrow functions that the operations install as handlers, by their bodies:
  \<open>resolve(request.result)\<close>, \<open>resolve(true)\<close>, \<open>reject(undefined)\<close>, \<open>reject(false)\<close>,
  \<open>reject(request.error)\<close>, \<open>reject(transaction.error)\<close>.
\<close>

datatype reaction =
    ResolveResult | ResolveTrue
  | RejectUndefined | RejectFalse | RejectRequestError | RejectTransactionError

text \<open>
  What one call of an operation leaves behind once its synchronous part and the
  continuations of its \<open>await\<close>s have run: the instance, the returned promise, the
  transactions acquired (scope and mode), the requests issued, the handler properties
  set on the request and on the transaction, and what the handlers read:
  \<open>request.result\<close> (\<open>None\<close> while the request is pending: reading it throws),
  \<open>request.error\<close> and \<open>transaction.error\<close>.
\<close>

record call =
  handle :: webdb
  promise :: promise
  acquired :: "(string list \<times> mode) list"
  issued :: "request list"
  request_onsuccess :: "reaction option"
  request_onerror :: "reaction option"
  transaction_oncomplete :: "reaction option"
  transaction_onerror :: "reaction option"
  request_result :: "jsval option"
  request_error :: jsval
  transaction_error :: jsval

definition started :: "webdb \<Rightarrow> call" where
  "started this =
     \<lparr>handle = this, promise = Pending, acquired = [], issued = [],
      request_onsuccess = None, request_onerror = None,
      transaction_oncomplete = None, transaction_onerror = None,
      request_result = None, request_error = Null, transaction_error = Null\<rparr>"

text \<open>
  Running a handler: the settlement it asks for, or none when it throws (reading the
  result of a pending request).
\<close>

fun react :: "reaction \<Rightarrow> call \<Rightarrow> promise option" where
  "react ResolveResult c = map_option Resolved (request_result c)"
| "react ResolveTrue c = Some (Resolved (JBool True))"
| "react RejectUndefined c = Some (Rejected Undefined)"
| "react RejectFalse c = Some (Rejected (JBool False))"
| "react RejectRequestError c = Some (Rejected (request_error c))"
| "react RejectTransactionError c = Some (Rejected (transaction_error c))"

definition invoke :: "reaction option \<Rightarrow> call \<Rightarrow> call" where
  "invoke h c =
     (case h of None \<Rightarrow> c
      | Some r \<Rightarrow> (case react r c of None \<Rightarrow> c | Some s \<Rightarrow> c\<lparr>promise := settle (promise c) s\<rparr>))"

text \<open>
  Dispatching one event: the engine updates the request and the transaction, then the
  handlers set for the event run, the request's before the transaction's.
\<close>

fun fire :: "call \<Rightarrow> event \<Rightarrow> call" where
  "fire c (Success v) = invoke (request_onsuccess c) (c\<lparr>request_result := Some v\<rparr>)"
| "fire c (Error re te) =
     (let c1 = c\<lparr>request_result := Some Undefined, request_error := re, transaction_error := te\<rparr>;
          c2 = invoke (request_onerror c1) c1
      in invoke (transaction_onerror c2) c2)"
| "fire c Complete = invoke (transaction_oncomplete c) c"
| "fire c Abort = c"

definition run :: "call \<Rightarrow> event list \<Rightarrow> call" where
  "run c evs = foldl fire c evs"

section \<open>The engine's transactions and stores\<close>

record idb_transaction =
  tx_scope :: "string list"
  tx_mode :: mode
  tx_db :: idb_database

text \<open>
  Modelled from the spec: \<open>db.transaction(storeNames, mode)\<close> gives a transaction
  scoped to the named stores; the engine throws \<open>NotFoundError\<close> when a name is not a
  store of the database and \<open>InvalidAccessError\<close> when no store is named.
\<close>

definition db_transaction :: "idb_database \<Rightarrow> store_names \<Rightarrow> mode \<Rightarrow> dom_exception + idb_transaction" where
  "db_transaction d storeNames m =
     (let scope = (case storeNames of Name n \<Rightarrow> [n] | Names ns \<Rightarrow> remdups ns) in
      if \<exists>n\<in>set scope. \<not> contains d n then Inl NotFoundError
      else if scope = [] then Inl InvalidAccessError
      else Inr \<lparr>tx_scope = scope, tx_mode = m, tx_db = d\<rparr>)"

text \<open>
  Modelled from the spec: \<open>transaction.objectStore(name)\<close> and \<open>store.index(name)\<close>
  throw \<open>NotFoundError\<close> when the store is not in the transaction's scope, or the store
  has no such index.
\<close>

definition objectStore :: "idb_transaction \<Rightarrow> string \<Rightarrow> dom_exception + object_store" where
  "objectStore t n =
     (if n \<in> set (tx_scope t)
      then (case stores (tx_db t) n of None \<Rightarrow> Inl NotFoundError | Some s \<Rightarrow> Inr s)
      else Inl NotFoundError)"

definition store_index :: "object_store \<Rightarrow> string \<Rightarrow> dom_exception + idb_index" where
  "store_index s n = (case store_indexes s n of None \<Rightarrow> Inl NotFoundError | Some i \<Rightarrow> Inr i)"

text \<open>
  Modelled from the spec: the key of a record to insert (sections 4.5 and 4.6). A key
  path is a sequence of property names separated by dots, the empty path naming the
  value itself; it is evaluated on plain objects. A store with a key path takes the key
  from the value and refuses a key argument; without a key in the value, or without key
  path and key argument, the key generator gives the key when the store has one. The
  engine throws \<open>DataError\<close>, as \<open>add\<close> or \<open>put\<close> is called, when there is no way to a
  key.
\<close>

fun identifiers :: "string \<Rightarrow> string list" where
  "identifiers [] = [[]]"
| "identifiers (c # cs) =
     (if c = CHR ''.'' then [] # identifiers cs
      else (case identifiers cs of [] \<Rightarrow> [[c]] | w # ws \<Rightarrow> (c # w) # ws))"

definition key_path :: "string \<Rightarrow> string list" where
  "key_path p = (if p = [] then [] else identifiers p)"

fun evaluate :: "string list \<Rightarrow> jsval \<Rightarrow> jsval option" where
  "evaluate [] v = Some v"
| "evaluate (p # ps) (JObject fs) =
     (case map_of fs p of None \<Rightarrow> None | Some v \<Rightarrow> evaluate ps v)"
| "evaluate (p # ps) _ = None"

fun set_property :: "string \<Rightarrow> jsval \<Rightarrow> (string \<times> jsval) list \<Rightarrow> (string \<times> jsval) list" where
  "set_property p v [] = [(p, v)]"
| "set_property p v ((q, w) # fs) = (if p = q then (p, v) # fs else (q, w) # set_property p v fs)"

fun inject :: "string list \<Rightarrow> jsval \<Rightarrow> jsval \<Rightarrow> jsval option" where
  "inject [] k v = None"
| "inject [p] k (JObject fs) = Some (JObject (set_property p k fs))"
| "inject (p # ps) k (JObject fs) =
     (case inject ps k (case map_of fs p of None \<Rightarrow> JObject [] | Some w \<Rightarrow> w) of
        None \<Rightarrow> None
      | Some w' \<Rightarrow> Some (JObject (set_property p w' fs)))"
| "inject (p # ps) k _ = None"

text \<open>
  \<open>Inr (Some k)\<close>: the record goes under key \<open>k\<close>; \<open>Inr None\<close>: under a generated key.
\<close>

definition record_key :: "object_store \<Rightarrow> jsval \<Rightarrow> idb_key option \<Rightarrow> dom_exception + idb_key option" where
  "record_key s v key =
     (case store_keyPath s of
        None \<Rightarrow>
          (case key of
             Some k \<Rightarrow> Inr (Some k)
           | None \<Rightarrow> if store_autoIncrement s then Inr None else Inl DataError)
      | Some p \<Rightarrow>
          if key \<noteq> None then Inl DataError
          else
            (case evaluate (key_path p) v of
               Some kv \<Rightarrow> (case value_key kv of None \<Rightarrow> Inl DataError | Some k \<Rightarrow> Inr (Some k))
             | None \<Rightarrow>
                 if store_autoIncrement s \<and> inject (key_path p) Null v \<noteq> None
                 then Inr None else Inl DataError))"

text \<open>
  Modelled from the spec: storing a record (sections 4.5 and 4.6). A generated key is the
  generator's current number; it is written into the value of a store with a key path.
  The generator moves past a number used as key. The key of a record in an index is
  what the index's key path gives on the record's value; a record breaks a unique index
  when another record of the store, under another primary key, has the same key in that
  index.
\<close>

definition record_at :: "object_store \<Rightarrow> idb_key option \<Rightarrow> idb_key" where
  "record_at s ko = (case ko of Some k \<Rightarrow> k | None \<Rightarrow> KNum (int (store_keygen s)))"

definition record_value :: "object_store \<Rightarrow> jsval \<Rightarrow> idb_key option \<Rightarrow> jsval" where
  "record_value s v ko =
     (case (ko, store_keyPath s) of
        (None, Some p) \<Rightarrow>
          (case inject (key_path p) (key_value (record_at s ko)) v of None \<Rightarrow> v | Some w \<Rightarrow> w)
      | _ \<Rightarrow> v)"

definition next_keygen :: "object_store \<Rightarrow> idb_key \<Rightarrow> nat" where
  "next_keygen s k =
     (case k of
        KNum n \<Rightarrow>
          if store_autoIncrement s \<and> int (store_keygen s) \<le> n then nat n + 1 else store_keygen s
      | KStr _ \<Rightarrow> store_keygen s)"

definition index_key :: "idb_index \<Rightarrow> jsval \<Rightarrow> idb_key option" where
  "index_key idx v =
     (case evaluate (key_path (index_keyPath idx)) v of None \<Rightarrow> None | Some kv \<Rightarrow> value_key kv)"

definition breaks_unique :: "object_store \<Rightarrow> idb_key \<Rightarrow> jsval \<Rightarrow> bool" where
  "breaks_unique s k v =
     list_ex (\<lambda>(n, idx).
        index_unique idx \<and>
        (case index_key idx v of
           None \<Rightarrow> False
         | Some ik \<Rightarrow> list_ex (\<lambda>(k', v'). k' \<noteq> k \<and> index_key idx v' = Some ik) (store_record_list s)))
       (store_index_list s)"

fun put_record :: "idb_key \<Rightarrow> jsval \<Rightarrow> (idb_key \<times> jsval) list \<Rightarrow> (idb_key \<times> jsval) list" where
  "put_record k v [] = [(k, v)]"
| "put_record k v ((k', v') # rs) = (if k = k' then (k, v) # rs else (k', v') # put_record k v rs)"

text \<open>
  Modelled from the spec: an insert (\<open>no_overwrite\<close>) fails with \<open>ConstraintError\<close> when
  the store has a record under the key; an upsert replaces it. Either fails with
  \<open>ConstraintError\<close> when the record breaks a unique index. The request's result is the
  key.
\<close>

definition store_record :: "bool \<Rightarrow> object_store \<Rightarrow> jsval \<Rightarrow> idb_key option \<Rightarrow> dom_exception + idb_key \<times> object_store" where
  "store_record no_overwrite s v key =
     (case record_key s v key of
        Inl e \<Rightarrow> Inl e
      | Inr ko \<Rightarrow>
          (let k = record_at s ko; v' = record_value s v ko
           in if no_overwrite \<and> store_records s k \<noteq> None then Inl ConstraintError
              else if breaks_unique s k v' then Inl ConstraintError
              else Inr (k, s\<lparr>store_record_list := put_record k v' (store_record_list s),
                             store_keygen := next_keygen s k\<rparr>)))"

text \<open>
  Modelled from the spec: what a write request does to the database, and its result
  (sections 4.5 to 4.8). A delete removes the records that the query includes and
  succeeds whether or not there are any; a clear removes all records of the store.
\<close>

fun execute :: "idb_database \<Rightarrow> write_request \<Rightarrow> dom_exception + jsval \<times> idb_database" where
  "execute d (Add n v key) =
     (case stores d n of
        None \<Rightarrow> Inl NotFoundError
      | Some s \<Rightarrow>
          (case store_record True s v key of
             Inl e \<Rightarrow> Inl e
           | Inr (k, s') \<Rightarrow> Inr (key_value k, d\<lparr>stores := (stores d)(n \<mapsto> s')\<rparr>)))"
| "execute d (Put n v key) =
     (case stores d n of
        None \<Rightarrow> Inl NotFoundError
      | Some s \<Rightarrow>
          (case store_record False s v key of
             Inl e \<Rightarrow> Inl e
           | Inr (k, s') \<Rightarrow> Inr (key_value k, d\<lparr>stores := (stores d)(n \<mapsto> s')\<rparr>)))"
| "execute d (Delete n q) =
     (case stores d n of
        None \<Rightarrow> Inl NotFoundError
      | Some s \<Rightarrow>
          Inr (Undefined,
               d\<lparr>stores := (stores d)(n \<mapsto>
                    s\<lparr>store_record_list :=
                         filter (\<lambda>(k, v). \<not> query_includes q k) (store_record_list s)\<rparr>)\<rparr>))"
| "execute d (Clear n) =
     (case stores d n of
        None \<Rightarrow> Inl NotFoundError
      | Some s \<Rightarrow> Inr (Undefined, d\<lparr>stores := (stores d)(n \<mapsto> s\<lparr>store_record_list := []\<rparr>)\<rparr>))"

text \<open>
  Modelled from the spec: a read-write transaction on database \<open>d0\<close> running its write
  requests in order, from the database \<open>d\<close> reached so far: the events it fires and the
  database afterwards. Each request that succeeds fires \<open>success\<close>; when all have, the
  transaction commits and fires \<open>complete\<close>. A request that fails fires \<open>error\<close>, which
  bubbles to the transaction while its \<open>error\<close> is still \<open>null\<close>; no handler of the
  operations prevents the default, so the transaction aborts, fires \<open>abort\<close> and leaves
  the database as it was.
\<close>

fun transact :: "idb_database \<Rightarrow> idb_database \<Rightarrow> write_request list \<Rightarrow> event list \<times> idb_database" where
  "transact d0 d [] = ([Complete], d)"
| "transact d0 d (r # rs) =
     (case execute d r of
        Inl e \<Rightarrow> ([Error (JDOMException e) Null, Abort], d0)
      | Inr (v, d') \<Rightarrow> (case transact d0 d' rs of (evs, d'') \<Rightarrow> (Success v # evs, d'')))"

fun writes :: "request list \<Rightarrow> write_request list" where
  "writes [] = []"
| "writes (Write r # rs) = r # writes rs"
| "writes (Read r # rs) = writes rs"

section \<open>The operations (\<open>src/db.ts\<close> and the other version, \<open>unnamed/part_000\<close>)\<close>

text \<open>
  \<open>transaction(storeNames, mode = "readonly")\<close>. The promise it returns is settled when
  it returns: \<open>Inl\<close> is the value it rejects with, \<open>Inr\<close> the transaction it resolves
  with. \<open>this.db?.transaction(...)\<close> is \<open>undefined\<close> without a connection; an exception
  of the engine leaves the executor and rejects the promise. The instance is returned
  with the result.
\<close>

definition transaction ::
  "webdb \<Rightarrow> store_names \<Rightarrow> mode option \<Rightarrow> (jsval + idb_transaction) \<times> webdb" where
  "transaction this storeNames m =
     (case db this of
        None \<Rightarrow> (Inl (JError ''Couldn't resolve the transaction''), this)
      | Some d \<Rightarrow>
          (case db_transaction d storeNames (case m of None \<Rightarrow> Readonly | Some m' \<Rightarrow> m') of
             Inl e \<Rightarrow> (Inl (JDOMException e), this)
           | Inr t \<Rightarrow> (Inr t, this)))"

definition acquire :: "idb_transaction \<Rightarrow> call \<Rightarrow> call" where
  "acquire t c = c\<lparr>acquired := acquired c @ [(tx_scope t, tx_mode t)]\<rparr>"

text \<open>
  \<open>index ? objectStore.index(index) : undefined\<close>: an index name that is \<open>undefined\<close> or
  the empty string is falsy, and no index is looked up. The result is the name of the
  index that the request goes through.
\<close>

definition lookup_index :: "object_store \<Rightarrow> string option \<Rightarrow> dom_exception + string option" where
  "lookup_index s index =
     (case index of
        None \<Rightarrow> Inr None
      | Some i \<Rightarrow>
          if i = [] then Inr None
          else (case store_index s i of Inl e \<Rightarrow> Inl e | Inr _ \<Rightarrow> Inr (Some i)))"

text \<open>
  \<open>get(store, query, index)\<close> and \<open>getAll(store, query, index)\<close>. The two versions of the
  source differ in the body of \<open>request.onerror\<close> only, which is the first argument here.
  An exception in the body of the \<open>async\<close> method, or in the executor of the promise it
  returns, rejects the promise.
\<close>

definition get_with :: "reaction \<Rightarrow> webdb \<Rightarrow> string \<Rightarrow> query \<Rightarrow> string option \<Rightarrow> call" where
  "get_with on_error this store q index =
     (case transaction this (Name store) None of
        (Inl e, this1) \<Rightarrow> (started this1)\<lparr>promise := Rejected e\<rparr>
      | (Inr t, this1) \<Rightarrow>
          (case objectStore t store of
             Inl e \<Rightarrow> (acquire t (started this1))\<lparr>promise := Rejected (JDOMException e)\<rparr>
           | Inr s \<Rightarrow>
               (case lookup_index s index of
                  Inl e \<Rightarrow> (acquire t (started this1))\<lparr>promise := Rejected (JDOMException e)\<rparr>
                | Inr idx \<Rightarrow>
                    (acquire t (started this1))
                      \<lparr>issued := [Read (Get store idx q)],
                       request_onsuccess := Some ResolveResult,
                       request_onerror := Some on_error\<rparr>)))"

definition getAll_with :: "reaction \<Rightarrow> webdb \<Rightarrow> string \<Rightarrow> query option \<Rightarrow> string option \<Rightarrow> call" where
  "getAll_with on_error this store q index =
     (case transaction this (Name store) None of
        (Inl e, this1) \<Rightarrow> (started this1)\<lparr>promise := Rejected e\<rparr>
      | (Inr t, this1) \<Rightarrow>
          (case objectStore t store of
             Inl e \<Rightarrow> (acquire t (started this1))\<lparr>promise := Rejected (JDOMException e)\<rparr>
           | Inr s \<Rightarrow>
               (case lookup_index s index of
                  Inl e \<Rightarrow> (acquire t (started this1))\<lparr>promise := Rejected (JDOMException e)\<rparr>
                | Inr idx \<Rightarrow>
                    (acquire t (started this1))
                      \<lparr>issued := [Read (GetAll store idx q)],
                       request_onsuccess := Some ResolveResult,
                       request_onerror := Some on_error\<rparr>)))"

text \<open>\<open>src/db.ts\<close>: \<open>request.onerror = () => reject(undefined)\<close>.\<close>

definition get :: "webdb \<Rightarrow> string \<Rightarrow> query \<Rightarrow> string option \<Rightarrow> call" where
  "get = get_with RejectUndefined"

definition getAll :: "webdb \<Rightarrow> string \<Rightarrow> query option \<Rightarrow> string option \<Rightarrow> call" where
  "getAll = getAll_with RejectUndefined"

text \<open>The other version: \<open>request.onerror = () => reject(request.error)\<close>.\<close>

definition get_000 :: "webdb \<Rightarrow> string \<Rightarrow> query \<Rightarrow> string option \<Rightarrow> call" where
  "get_000 = get_with RejectRequestError"

definition getAll_000 :: "webdb \<Rightarrow> string \<Rightarrow> query option \<Rightarrow> string option \<Rightarrow> call" where
  "getAll_000 = getAll_with RejectRequestError"

text \<open>
  \<open>add(store, data, key)\<close>, \<open>put(store, data, key)\<close> and \<open>delete(store, query)\<close> return
  \<open>new Promise(async (resolve, reject) => ...)\<close>. An exception in the \<open>async\<close> executor
  (the rejected \<open>await this.transaction(...)\<close>, or one of the engine) rejects the promise
  of the executor, which nobody holds: neither \<open>resolve\<close> nor \<open>reject\<close> is called and no
  handler is set. The two versions differ in the body of the error handler only.
\<close>

definition add_with :: "reaction \<Rightarrow> webdb \<Rightarrow> string \<Rightarrow> jsval \<Rightarrow> idb_key option \<Rightarrow> call" where
  "add_with on_error this store data key =
     (case transaction this (Name store) (Some Readwrite) of
        (Inl e, this1) \<Rightarrow> started this1
      | (Inr t, this1) \<Rightarrow>
          (case objectStore t store of
             Inl e \<Rightarrow> acquire t (started this1)
           | Inr s \<Rightarrow>
               (case record_key s data key of
                  Inl e \<Rightarrow> acquire t (started this1)
                | Inr _ \<Rightarrow>
                    (acquire t (started this1))
                      \<lparr>issued := [Write (Add store data key)],
                       transaction_oncomplete := Some ResolveResult,
                       transaction_onerror := Some on_error\<rparr>)))"

definition put_with :: "reaction \<Rightarrow> webdb \<Rightarrow> string \<Rightarrow> jsval \<Rightarrow> idb_key option \<Rightarrow> call" where
  "put_with on_error this store data key =
     (case transaction this (Name store) (Some Readwrite) of
        (Inl e, this1) \<Rightarrow> started this1
      | (Inr t, this1) \<Rightarrow>
          (case objectStore t store of
             Inl e \<Rightarrow> acquire t (started this1)
           | Inr s \<Rightarrow>
               (case record_key s data key of
                  Inl e \<Rightarrow> acquire t (started this1)
                | Inr _ \<Rightarrow>
                    (acquire t (started this1))
                      \<lparr>issued := [Write (Put store data key)],
                       transaction_oncomplete := Some ResolveResult,
                       transaction_onerror := Some on_error\<rparr>)))"

definition delete_with :: "reaction \<Rightarrow> webdb \<Rightarrow> string \<Rightarrow> query \<Rightarrow> call" where
  "delete_with on_error this store q =
     (case transaction this (Name store) (Some Readwrite) of
        (Inl e, this1) \<Rightarrow> started this1
      | (Inr t, this1) \<Rightarrow>
          (case objectStore t store of
             Inl e \<Rightarrow> acquire t (started this1)
           | Inr s \<Rightarrow>
               (acquire t (started this1))
                 \<lparr>issued := [Write (Delete store q)],
                  request_onsuccess := Some ResolveTrue,
                  request_onerror := Some on_error\<rparr>))"

text \<open>\<open>src/db.ts\<close>: the error handlers are \<open>() => reject(false)\<close>.\<close>

definition add :: "webdb \<Rightarrow> string \<Rightarrow> jsval \<Rightarrow> idb_key option \<Rightarrow> call" where
  "add = add_with RejectFalse"

definition put :: "webdb \<Rightarrow> string \<Rightarrow> jsval \<Rightarrow> idb_key option \<Rightarrow> call" where
  "put = put_with RejectFalse"

definition delete :: "webdb \<Rightarrow> string \<Rightarrow> query \<Rightarrow> call" where
  "delete = delete_with RejectFalse"

text \<open>
  The other version: \<open>reject(transaction.error)\<close> in \<open>add\<close> and \<open>put\<close>,
  \<open>reject(request.error)\<close> in \<open>delete\<close>.
\<close>

definition add_000 :: "webdb \<Rightarrow> string \<Rightarrow> jsval \<Rightarrow> idb_key option \<Rightarrow> call" where
  "add_000 = add_with RejectTransactionError"

definition put_000 :: "webdb \<Rightarrow> string \<Rightarrow> jsval \<Rightarrow> idb_key option \<Rightarrow> call" where
  "put_000 = put_with RejectTransactionError"

definition delete_000 :: "webdb \<Rightarrow> string \<Rightarrow> query \<Rightarrow> call" where
  "delete_000 = delete_with RejectRequestError"

text \<open>
  The loop of \<open>clear\<close>, the same in both versions: for an array,
  \<open>storeNames.forEach((name) => transaction.objectStore(name).clear())\<close>, for a string the
  one store. The requests issued, and the exception that ended the loop, if any.
\<close>

fun clearEach :: "idb_transaction \<Rightarrow> string list \<Rightarrow> request list \<times> dom_exception option" where
  "clearEach t [] = ([], None)"
| "clearEach t (n # ns) =
     (case objectStore t n of
        Inl e \<Rightarrow> ([], Some e)
      | Inr s \<Rightarrow> (case clearEach t ns of (rs, e) \<Rightarrow> (Write (Clear n) # rs, e)))"

definition clearStores :: "idb_transaction \<Rightarrow> store_names \<Rightarrow> request list \<times> dom_exception option" where
  "clearStores t storeNames =
     (case storeNames of Names ns \<Rightarrow> clearEach t ns | Name n \<Rightarrow> clearEach t [n])"

text \<open>
  \<open>src/db.ts\<close>: \<open>clear\<close> is a plain \<open>async\<close> method. It rejects with what its body
  throws, and resolves with \<open>undefined\<close> when the body ends, the clear requests still
  pending; it sets no handler.
\<close>

definition clear :: "webdb \<Rightarrow> store_names \<Rightarrow> call" where
  "clear this storeNames =
     (case transaction this storeNames (Some Readwrite) of
        (Inl e, this1) \<Rightarrow> (started this1)\<lparr>promise := Rejected e\<rparr>
      | (Inr t, this1) \<Rightarrow>
          (case clearStores t storeNames of
             (rs, Some e) \<Rightarrow>
               (acquire t (started this1))\<lparr>issued := rs, promise := Rejected (JDOMException e)\<rparr>
           | (rs, None) \<Rightarrow>
               (acquire t (started this1))\<lparr>issued := rs, promise := Resolved Undefined\<rparr>))"

text \<open>
  The other version: \<open>clear\<close> returns \<open>new Promise(async (resolve, reject) => ...)\<close> and,
  after the loop, sets \<open>transaction.oncomplete = () => resolve(true)\<close> and
  \<open>transaction.onerror = () => reject(transaction.error)\<close>.
\<close>

definition clear_000 :: "webdb \<Rightarrow> store_names \<Rightarrow> call" where
  "clear_000 this storeNames =
     (case transaction this storeNames (Some Readwrite) of
        (Inl e, this1) \<Rightarrow> started this1
      | (Inr t, this1) \<Rightarrow>
          (case clearStores t storeNames of
             (rs, Some e) \<Rightarrow> (acquire t (started this1))\<lparr>issued := rs\<rparr>
           | (rs, None) \<Rightarrow>
               (acquire t (started this1))
                 \<lparr>issued := rs,
                  transaction_oncomplete := Some ResolveTrue,
                  transaction_onerror := Some RejectTransactionError\<rparr>))"

section \<open>The store that the upgrade step creates\<close>

text \<open>
  For the statements about the upgrade step: the indexes that a descriptor declares, by
  name, and the store that \<open>createObjectStore\<close> followed by the \<open>createIndex\<close> calls gives
  when the declared index names are distinct.
\<close>

definition index_map :: "webdb_index list \<Rightarrow> (string \<rightharpoonup> idb_index)" where
  "index_map idxs =
     map_of (map (\<lambda>i. (idx_name i, new_index (idx_keyPath i) (idx_options i))) idxs)"

definition created_store :: "webdb_object_store \<Rightarrow> object_store" where
  "created_store x =
     (new_store (os_options x))
       \<lparr>store_index_list :=
          map (\<lambda>i. (idx_name i, new_index (idx_keyPath i) (idx_options i))) (declared_indexes x)\<rparr>"

section \<open>Named stores and the schema of a connection\<close>

text \<open>
  For the statements about the operations: the stores that a \<open>storeNames\<close> argument
  names, in order; and what a connection shows of its database apart from the records:
  its \<open>onversionchange\<close> property and, by name, the key path, auto-increment flag and
  indexes of each store.
\<close>

definition named :: "store_names \<Rightarrow> string list" where
  "named storeNames = (case storeNames of Name n \<Rightarrow> [n] | Names ns \<Rightarrow> ns)"

definition schema ::
  "idb_database \<Rightarrow> bool \<times> (string \<rightharpoonup> string option \<times> bool \<times> (string \<rightharpoonup> idb_index))" where
  "schema d =
     (onversionchange d,
      \<lambda>n. map_option (\<lambda>s. (store_keyPath s, store_autoIncrement s, store_indexes s)) (stores d n))"

section \<open>An example database\<close>

text \<open>
  The database \<open>shop\<close> at version 1 with one store \<open>items\<close> (auto-increment key \<open>id\<close>)
  and its index \<open>byColor\<close> on \<open>color\<close>: the declaration, the instance before the open
  handshake has attached a connection, the stored database, and the instance after.
  Then the same with a unique index, a database without stores, one whose store \<open>items\<close>
  was created without the index, and the instance that asks for version 2 with the same
  declaration.
\<close>

definition shop_items :: webdb_object_store where
  "shop_items =
     \<lparr>os_name = ''items'',
      os_options = Some \<lparr>keyPath = Some ''id'', autoIncrement = Some True\<rparr>,
      os_configs = Some \<lparr>recreate = None,
                         indexes = Some [\<lparr>idx_name = ''byColor'', idx_keyPath = ''color'',
                                          idx_options = None\<rparr>]\<rparr>\<rparr>"

definition shop_setup :: setup_options where
  "shop_setup = \<lparr>objectStores = Some [shop_items]\<rparr>"

definition shop_unopened :: webdb where
  "shop_unopened =
     \<lparr>db_name = ''shop'', db_version = 1, db_setup = Some shop_setup, handlers = None,
      databaseRequest = \<lparr>onupgradeneeded = True, onsuccess = True,
                         onblocked = False, onerror = False\<rparr>,
      db = None\<rparr>"

definition shop_store :: object_store where
  "shop_store =
     \<lparr>store_keyPath = Some ''id'', store_autoIncrement = True,
      store_index_list = [(''byColor'', \<lparr>index_keyPath = ''color'', index_unique = False,
                                         index_multiEntry = False\<rparr>)],
      store_record_list = [(KNum 1, JObject [(''color'', JStr ''red''), (''id'', JNum 1)])],
      store_keygen = 2\<rparr>"

definition shop_db :: idb_database where
  "shop_db = \<lparr>stores = [''items'' \<mapsto> shop_store], onversionchange = False\<rparr>"

definition shop :: webdb where
  "shop = shop_unopened\<lparr>db := Some shop_db\<rparr>"

definition unique_store :: object_store where
  "unique_store =
     shop_store\<lparr>store_index_list := [(''byColor'', \<lparr>index_keyPath = ''color'', index_unique = True,
                                                    index_multiEntry = False\<rparr>)]\<rparr>"

definition unique_db :: idb_database where
  "unique_db = \<lparr>stores = [''items'' \<mapsto> unique_store], onversionchange = False\<rparr>"

definition unique_shop :: webdb where
  "unique_shop = shop_unopened\<lparr>db := Some unique_db\<rparr>"

definition empty_db :: idb_database where
  "empty_db = \<lparr>stores = Map.empty, onversionchange = False\<rparr>"

definition plain_db :: idb_database where
  "plain_db =
     \<lparr>stores =
        [''items'' \<mapsto>
           \<lparr>store_keyPath = Some ''id'', store_autoIncrement = True,
            store_index_list = [],
            store_record_list = [(KNum 1, JObject [(''color'', JStr ''red''), (''id'', JNum 1)])],
            store_keygen = 2\<rparr>],
      onversionchange = False\<rparr>"

definition shop_next :: webdb where
  "shop_next = shop_unopened\<lparr>db_version := 2\<rparr>"

section \<open>Events and promises: basic facts\<close>

lemma run_Nil: "run c [] = c"
  by (simp add: run_def)

lemma run_Cons: "run c (e # evs) = run (fire c e) evs"
  by (simp add: run_def)

lemma run_append: "run c (evs @ evs') = run (run c evs) evs'"
  by (simp add: run_def)

lemma invoke_fields:
  "handle (invoke h c) = handle c"
  "acquired (invoke h c) = acquired c"
  "issued (invoke h c) = issued c"
  "request_onsuccess (invoke h c) = request_onsuccess c"
  "request_onerror (invoke h c) = request_onerror c"
  "transaction_oncomplete (invoke h c) = transaction_oncomplete c"
  "transaction_onerror (invoke h c) = transaction_onerror c"
  "request_result (invoke h c) = request_result c"
  "request_error (invoke h c) = request_error c"
  "transaction_error (invoke h c) = transaction_error c"
  by (simp_all add: invoke_def split: option.splits)

lemma fire_fields:
  "handle (fire c e) = handle c"
  "acquired (fire c e) = acquired c"
  "issued (fire c e) = issued c"
  "request_onsuccess (fire c e) = request_onsuccess c"
  "request_onerror (fire c e) = request_onerror c"
  "transaction_oncomplete (fire c e) = transaction_oncomplete c"
  "transaction_onerror (fire c e) = transaction_onerror c"
  by (cases e; simp add: invoke_fields Let_def)+

lemma run_fields:
  "handle (run c evs) = handle c"
  "acquired (run c evs) = acquired c"
  "issued (run c evs) = issued c"
  "request_onsuccess (run c evs) = request_onsuccess c"
  "request_onerror (run c evs) = request_onerror c"
  "transaction_oncomplete (run c evs) = transaction_oncomplete c"
  "transaction_onerror (run c evs) = transaction_onerror c"
  by (induction evs arbitrary: c; simp add: run_Nil run_Cons fire_fields)+

text \<open>A settled promise stays as it is; without handlers a promise never changes.\<close>

lemma invoke_settled: "promise c \<noteq> Pending \<Longrightarrow> promise (invoke h c) = promise c"
  by (cases "promise c") (simp_all add: invoke_def settle_def split: option.splits)

lemma fire_settled: "promise c \<noteq> Pending \<Longrightarrow> promise (fire c e) = promise c"
  by (cases e) (simp_all add: invoke_settled Let_def)

lemma run_settled: "promise c \<noteq> Pending \<Longrightarrow> promise (run c evs) = promise c"
  by (induction evs arbitrary: c) (simp_all add: run_Nil run_Cons fire_settled)

lemma fire_no_handlers:
  "request_onsuccess c = None \<Longrightarrow> request_onerror c = None \<Longrightarrow>
   transaction_oncomplete c = None \<Longrightarrow> transaction_onerror c = None \<Longrightarrow>
   promise (fire c e) = promise c"
  by (cases e) (simp_all add: invoke_def Let_def)

lemma run_no_handlers:
  "request_onsuccess c = None \<Longrightarrow> request_onerror c = None \<Longrightarrow>
   transaction_oncomplete c = None \<Longrightarrow> transaction_onerror c = None \<Longrightarrow>
   promise (run c evs) = promise c"
  by (induction evs arbitrary: c) (simp_all add: run_Nil run_Cons fire_no_handlers fire_fields)

lemma started_fields:
  "promise (started this) = Pending"
  "request_onsuccess (started this) = None"
  "request_onerror (started this) = None"
  "transaction_oncomplete (started this) = None"
  "transaction_onerror (started this) = None"
  "issued (started this) = []"
  "acquired (started this) = []"
  "handle (started this) = this"
  by (simp_all add: started_def)

section \<open>Operations on an instance without connection\<close>

lemma transaction_unopened:
  "db this = None \<Longrightarrow>
   transaction this sn m = (Inl (JError ''Couldn't resolve the transaction''), this)"
  by (simp add: transaction_def)

lemma unopened_reads:
  assumes "db this = None"
  shows "promise (run (get_with r this store q index) evs)
           = Rejected (JError ''Couldn't resolve the transaction'')"
    and "promise (run (getAll_with r this store q' index) evs)
           = Rejected (JError ''Couldn't resolve the transaction'')"
    and "promise (run (clear this sn) evs)
           = Rejected (JError ''Couldn't resolve the transaction'')"
  using assms
  by (simp_all add: get_with_def getAll_with_def clear_def transaction_unopened run_settled)

lemma unopened_writes:
  assumes "db this = None"
  shows "promise (run (add_with r this store data key) evs) = Pending"
    and "promise (run (put_with r this store data key) evs) = Pending"
    and "promise (run (delete_with r this store q) evs) = Pending"
    and "promise (run (clear_000 this sn) evs) = Pending"
  using assms
  by (simp_all add: add_with_def put_with_def delete_with_def clear_000_def transaction_unopened
      run_no_handlers started_fields)

text \<open>
  Claim C1. An operation called before the open handshake has attached a connection
  (\<open>this.db\<close> is \<open>undefined\<close>) should reject with the error "Couldn't resolve the
  transaction". \<open>transaction\<close>, \<open>get\<close>, \<open>getAll\<close> (both versions) and the \<open>clear\<close> of
  \<open>src/db.ts\<close> do. \<open>add\<close>, \<open>put\<close> and \<open>delete\<close> (both versions) and the \<open>clear\<close> of the
  other version do not: the rejection is lost in the \<open>async\<close> executor and the returned
  promise stays pending whatever events follow.
\<close>

theorem unopened_operations:
  assumes "db this = None"
  shows "fst (transaction this sn m) = Inl (JError ''Couldn't resolve the transaction'')
       \<and> promise (run (get this store q index) evs) = Rejected (JError ''Couldn't resolve the transaction'')
       \<and> promise (run (getAll this store q' index) evs) = Rejected (JError ''Couldn't resolve the transaction'')
       \<and> promise (run (get_000 this store q index) evs) = Rejected (JError ''Couldn't resolve the transaction'')
       \<and> promise (run (getAll_000 this store q' index) evs) = Rejected (JError ''Couldn't resolve the transaction'')
       \<and> promise (run (clear this sn) evs) = Rejected (JError ''Couldn't resolve the transaction'')
       \<and> promise (run (add this store data key) evs) = Pending
       \<and> promise (run (put this store data key) evs) = Pending
       \<and> promise (run (delete this store q) evs) = Pending
       \<and> promise (run (add_000 this store data key) evs) = Pending
       \<and> promise (run (put_000 this store data key) evs) = Pending
       \<and> promise (run (delete_000 this store q) evs) = Pending
       \<and> promise (run (clear_000 this sn) evs) = Pending"
  using assms
  by (simp add: get_def getAll_def get_000_def getAll_000_def add_def put_def delete_def
      add_000_def put_000_def delete_000_def unopened_reads unopened_writes transaction_unopened)

theorem unopened_operations_witness:
  "db shop_unopened = None
   \<and> promise (run (get shop_unopened ''items'' (QKey (KNum 1)) None) [Success Undefined, Complete])
       = Rejected (JError ''Couldn't resolve the transaction'')
   \<and> promise (run (add shop_unopened ''items'' (JObject [(''color'', JStr ''red'')]) None)
                [Success (JNum 1), Complete]) = Pending
   \<and> promise (run (delete shop_unopened ''items'' (QKey (KNum 1))) [Success Undefined, Complete])
       = Pending"
proof -
  have h: "db shop_unopened = None"
    by (simp add: shop_unopened_def)
  show ?thesis
    using h
      unopened_operations [OF h, of "Name ''items''" None "''items''" "QKey (KNum 1)" None
        "[Success Undefined, Complete]"]
      unopened_operations [OF h, of "Name ''items''" None "''items''" "QKey (KNum 1)" None
        "[Success (JNum 1), Complete]" None "JObject [(''color'', JStr ''red'')]" None]
    by simp
qed

section \<open>Construction\<close>

text \<open>
  Claim C8. Without \<open>indexedDB\<close> in the host the constructor throws
  \<open>Error("No support for indexedDB!")\<close>: there is no instance, so no handler is set, and
  the host is as before, so no open request was issued. With \<open>indexedDB\<close> (and a version
  that the engine accepts) it issues the open request and sets the \<open>upgradeneeded\<close> and
  \<open>success\<close> handlers.
\<close>

theorem constructor_without_indexedDB:
  "(indexedDB w = None \<longrightarrow>
      constructor w n v su hs = (Inl (JError ''No support for indexedDB!''), w))
   \<and> (indexedDB w = Some reqs \<and> 0 < v \<longrightarrow>
        (\<exists>this. constructor w n v su hs = (Inr this, w\<lparr>indexedDB := Some (reqs @ [(n, v)])\<rparr>)
           \<and> onupgradeneeded (databaseRequest this) \<and> onsuccess (databaseRequest this)
           \<and> db this = None))"
  by (simp add: constructor_def handleUpgradeNeeded_def handleSuccess_def handleBlocked_def
      handleError_def)

theorem constructor_without_indexedDB_witness:
  "constructor \<lparr>indexedDB = None\<rparr> ''shop'' 1 (Some shop_setup) None
     = (Inl (JError ''No support for indexedDB!''), \<lparr>indexedDB = None\<rparr>)
   \<and> constructor \<lparr>indexedDB = Some []\<rparr> ''shop'' 1 (Some shop_setup) None
     = (Inr shop_unopened, \<lparr>indexedDB = Some [(''shop'', 1)]\<rparr>)"
proof -
  have "constructor \<lparr>indexedDB = Some []\<rparr> ''shop'' 1 (Some shop_setup) None
     = (Inr shop_unopened, \<lparr>indexedDB = Some [(''shop'', 1)]\<rparr>)"
    by (simp add: constructor_def handleUpgradeNeeded_def handleSuccess_def handleBlocked_def
        handleError_def has_hook_def shop_unopened_def)
  then show ?thesis
    using constructor_without_indexedDB [of "\<lparr>indexedDB = None\<rparr>" "''shop''" 1 "Some shop_setup" None]
    by simp
qed

section \<open>Reads\<close>

lemma transaction_opened:
  "db this = Some d \<Longrightarrow> stores d store = Some s \<Longrightarrow>
   transaction this (Name store) m
     = (Inr \<lparr>tx_scope = [store], tx_mode = (case m of None \<Rightarrow> Readonly | Some m' \<Rightarrow> m'),
              tx_db = d\<rparr>, this)"
  by (simp add: transaction_def db_transaction_def contains_def)

lemma objectStore_opened:
  "stores d store = Some s \<Longrightarrow>
   objectStore \<lparr>tx_scope = [store], tx_mode = m, tx_db = d\<rparr> store = Inr s"
  by (simp add: objectStore_def)

text \<open>The first event is an \<open>error\<close>: the handler set as \<open>request.onerror\<close> settles.\<close>

lemma error_first:
  assumes "request_onerror c = Some r" "promise c = Pending"
  shows "promise (run c (Error re te # evs))
         = (case r of
              RejectUndefined \<Rightarrow> Rejected Undefined
            | RejectRequestError \<Rightarrow> Rejected re
            | RejectFalse \<Rightarrow> Rejected (JBool False)
            | RejectTransactionError \<Rightarrow> Rejected te
            | ResolveTrue \<Rightarrow> Resolved (JBool True)
            | ResolveResult \<Rightarrow> Resolved Undefined)"
proof -
  have fired: "promise (fire c (Error re te))
         = (case r of
              RejectUndefined \<Rightarrow> Rejected Undefined
            | RejectRequestError \<Rightarrow> Rejected re
            | RejectFalse \<Rightarrow> Rejected (JBool False)
            | RejectTransactionError \<Rightarrow> Rejected te
            | ResolveTrue \<Rightarrow> Resolved (JBool True)
            | ResolveResult \<Rightarrow> Resolved Undefined)"
    using assms
    by (cases r) (simp_all add: Let_def invoke_def settle_def invoke_settled split: option.splits)
  then have "promise (fire c (Error re te)) \<noteq> Pending"
    by (cases r) simp_all
  with fired show ?thesis
    by (simp add: run_Cons run_settled)
qed

lemma get_with_issued:
  "issued (get_with r this store q index) = [rq] \<Longrightarrow>
   request_onerror (get_with r this store q index) = Some r
   \<and> promise (get_with r this store q index) = Pending"
  by (auto simp: get_with_def acquire_def started_def split: prod.splits sum.splits)

lemma getAll_with_issued:
  "issued (getAll_with r this store q index) = [rq] \<Longrightarrow>
   request_onerror (getAll_with r this store q index) = Some r
   \<and> promise (getAll_with r this store q index) = Pending"
  by (auto simp: getAll_with_def acquire_def started_def split: prod.splits sum.splits)

text \<open>
  Claim C2, as the code has it. When the read request that \<open>get\<close> or \<open>getAll\<close> has
  issued fires its \<open>error\<close> event, the returned promise rejects: with \<open>undefined\<close> in
  \<open>src/db.ts\<close>, with the request's error object in the other version
  (\<open>unnamed/part_000\<close>). In each version \<open>get\<close> and \<open>getAll\<close> do the same.
\<close>

theorem read_request_error:
  "(issued (get this store q index) = [rq] \<longrightarrow>
      promise (run (get this store q index) (Error re te # evs)) = Rejected Undefined)
   \<and> (issued (getAll this store q' index) = [rq] \<longrightarrow>
      promise (run (getAll this store q' index) (Error re te # evs)) = Rejected Undefined)
   \<and> (issued (get_000 this store q index) = [rq] \<longrightarrow>
      promise (run (get_000 this store q index) (Error re te # evs)) = Rejected re)
   \<and> (issued (getAll_000 this store q' index) = [rq] \<longrightarrow>
      promise (run (getAll_000 this store q' index) (Error re te # evs)) = Rejected re)"
  using get_with_issued [of RejectUndefined this store q index rq]
    getAll_with_issued [of RejectUndefined this store q' index rq]
    get_with_issued [of RejectRequestError this store q index rq]
    getAll_with_issued [of RejectRequestError this store q' index rq]
  by (auto simp: get_def getAll_def get_000_def getAll_000_def error_first)

theorem read_request_error_witness:
  "issued (get shop ''items'' (QKey (KNum 1)) None) = [Read (Get ''items'' None (QKey (KNum 1)))]
   \<and> promise (run (get shop ''items'' (QKey (KNum 1)) None)
                 [Error (JDOMException UnknownError) Null, Abort]) = Rejected Undefined
   \<and> issued (getAll_000 shop ''items'' None None) = [Read (GetAll ''items'' None None)]
   \<and> promise (run (getAll_000 shop ''items'' None None)
                 [Error (JDOMException UnknownError) Null, Abort])
       = Rejected (JDOMException UnknownError)"
proof -
  have g: "issued (get shop ''items'' (QKey (KNum 1)) None)
             = [Read (Get ''items'' None (QKey (KNum 1)))]"
    by (simp add: shop_db_def shop_def get_def get_with_def transaction_def db_transaction_def
        contains_def objectStore_def lookup_index_def acquire_def started_def)
  have a: "issued (getAll_000 shop ''items'' None None) = [Read (GetAll ''items'' None None)]"
    by (simp add: shop_db_def shop_def getAll_000_def getAll_with_def transaction_def
        db_transaction_def contains_def objectStore_def lookup_index_def acquire_def started_def)
  show ?thesis
    using g a
      read_request_error [of shop "''items''" "QKey (KNum 1)" None
        "Read (Get ''items'' None (QKey (KNum 1)))" "JDOMException UnknownError" Null "[Abort]"]
      read_request_error [of shop "''items''" _ None
        "Read (GetAll ''items'' None None)" "JDOMException UnknownError" Null "[Abort]" None]
    by simp
qed

text \<open>
  Claim C2 as stated fails on \<open>src/db.ts\<close>: the request of a \<open>get\<close> on the example
  database fires \<open>error\<close> with an \<open>UnknownError\<close>, and the promise rejects with
  \<open>undefined\<close>, not with that error.
\<close>

theorem read_request_error_counterexample:
  "promise (run (get shop ''items'' (QKey (KNum 1)) None)
              [Error (JDOMException UnknownError) Null, Abort]) = Rejected Undefined
   \<and> promise (run (get shop ''items'' (QKey (KNum 1)) None)
              [Error (JDOMException UnknownError) Null, Abort])
       \<noteq> Rejected (JDOMException UnknownError)"
  by (simp add: shop_db_def shop_store_def store_indexes_def shop_def get_def get_with_def
      transaction_def db_transaction_def contains_def objectStore_def lookup_index_def
      acquire_def started_def run_def Let_def invoke_def settle_def)

lemma missing_index_reads:
  assumes "db this = Some d" "stores d store = Some s" "store_indexes s i = None" "i \<noteq> []"
  shows "promise (run (get_with r this store q (Some i)) evs) = Rejected (JDOMException NotFoundError)"
    and "issued (get_with r this store q (Some i)) = []"
    and "promise (run (getAll_with r this store q' (Some i)) evs) = Rejected (JDOMException NotFoundError)"
    and "issued (getAll_with r this store q' (Some i)) = []"
  using assms
  by (simp_all add: get_with_def getAll_with_def transaction_opened objectStore_opened
      lookup_index_def store_index_def run_settled acquire_def started_fields)

lemma empty_index_reads:
  assumes "db this = Some d" "stores d store = Some s"
  shows "issued (get_with r this store q (Some [])) = [Read (Get store None q)]"
    and "issued (getAll_with r this store q' (Some [])) = [Read (GetAll store None q')]"
  using assms
  by (simp_all add: get_with_def getAll_with_def transaction_opened objectStore_opened
      lookup_index_def acquire_def started_fields)

text \<open>
  Claim C10, as the code has it. On an instance with a connection and for a store of
  the database: called with a non-empty index name that the store does not have, \<open>get\<close>
  and \<open>getAll\<close> (both versions) reject with the engine's \<open>NotFoundError\<close> and issue no
  read request. The empty string as index name is falsy: no index is looked up and the
  read request goes to the store itself.
\<close>

theorem missing_index:
  assumes "db this = Some d" "stores d store = Some s"
  shows "(store_indexes s i = None \<and> i \<noteq> [] \<longrightarrow>
            promise (run (get this store q (Some i)) evs) = Rejected (JDOMException NotFoundError)
          \<and> issued (get this store q (Some i)) = []
          \<and> promise (run (getAll this store q' (Some i)) evs) = Rejected (JDOMException NotFoundError)
          \<and> issued (getAll this store q' (Some i)) = []
          \<and> promise (run (get_000 this store q (Some i)) evs) = Rejected (JDOMException NotFoundError)
          \<and> issued (get_000 this store q (Some i)) = []
          \<and> promise (run (getAll_000 this store q' (Some i)) evs) = Rejected (JDOMException NotFoundError)
          \<and> issued (getAll_000 this store q' (Some i)) = [])
       \<and> issued (get this store q (Some [])) = [Read (Get store None q)]
       \<and> issued (getAll this store q' (Some [])) = [Read (GetAll store None q')]
       \<and> issued (get_000 this store q (Some [])) = [Read (Get store None q)]
       \<and> issued (getAll_000 this store q' (Some [])) = [Read (GetAll store None q')]"
  using assms
  by (simp add: get_def getAll_def get_000_def getAll_000_def missing_index_reads empty_index_reads)

theorem missing_index_witness:
  "db shop = Some shop_db
   \<and> map_option (\<lambda>s. store_indexes s ''byColour'') (stores shop_db ''items'') = Some None
   \<and> promise (run (get shop ''items'' (QKey (KNum 1)) (Some ''byColour'')) [Success Undefined])
       = Rejected (JDOMException NotFoundError)
   \<and> issued (getAll shop ''items'' None (Some ''byColour'')) = []"
proof -
  have h: "db shop = Some shop_db"
    by (simp add: shop_def)
  obtain s where s: "stores shop_db ''items'' = Some s" "store_indexes s ''byColour'' = None"
    by (simp add: shop_db_def shop_store_def store_indexes_def)
  show ?thesis
    using h s missing_index [OF h s(1), of "''byColour''" "QKey (KNum 1)" "[Success Undefined]" None]
    by simp
qed

text \<open>
  Claim C10 as stated fails for the empty index name: the store \<open>items\<close> of the example
  has no index of that name, and \<open>get\<close> issues its read request on the store and resolves
  with the request's result.
\<close>

theorem empty_index_name_counterexample:
  "map_option (\<lambda>s. store_indexes s '''') (stores shop_db ''items'') = Some None
   \<and> issued (get shop ''items'' (QKey (KNum 1)) (Some ''''))
       = [Read (Get ''items'' None (QKey (KNum 1)))]
   \<and> promise (run (get shop ''items'' (QKey (KNum 1)) (Some '''')) [Success (JNum 7), Complete])
       = Resolved (JNum 7)"
  by (simp add: shop_db_def shop_store_def store_indexes_def shop_def get_def get_with_def
      transaction_def db_transaction_def contains_def objectStore_def lookup_index_def
      acquire_def started_def run_def Let_def invoke_def settle_def)

section \<open>The schema-upgrade step\<close>

lemma createIndexes_distinct:
  "distinct (map idx_name idxs) \<Longrightarrow> \<forall>i\<in>set idxs. store_indexes s (idx_name i) = None \<Longrightarrow>
   createIndexes s idxs =
     Inr (s\<lparr>store_index_list := store_index_list s
            @ map (\<lambda>i. (idx_name i, new_index (idx_keyPath i) (idx_options i))) idxs\<rparr>)"
proof (induction idxs arbitrary: s)
  case Nil
  then show ?case by simp
next
  case (Cons i idxs)
  define s' where "s' = s\<lparr>store_index_list := store_index_list s
      @ [(idx_name i, new_index (idx_keyPath i) (idx_options i))]\<rparr>"
  have step: "createIndex s (idx_name i) (idx_keyPath i) (idx_options i) = Inr s'"
    using Cons.prems(2) by (simp add: createIndex_def s'_def)
  have free: "\<forall>j\<in>set idxs. store_indexes s' (idx_name j) = None"
    using Cons.prems by (auto simp: image_iff s'_def store_indexes_def map_add_def)
  have dist: "distinct (map idx_name idxs)"
    using Cons.prems(1) by simp
  have rest: "createIndexes s' idxs =
     Inr (s'\<lparr>store_index_list := store_index_list s'
            @ map (\<lambda>i. (idx_name i, new_index (idx_keyPath i) (idx_options i))) idxs\<rparr>)"
    by (rule Cons.IH [OF dist free])
  with step show ?case
    by (simp add: s'_def)
qed

lemma upgradeStore_eq:
  assumes "distinct (map idx_name (declared_indexes x))"
  shows "upgradeStore d x =
     Inr (if wants_recreate x \<or> \<not> contains d (os_name x)
          then d\<lparr>stores := (stores d)(os_name x \<mapsto> created_store x)\<rparr> else d)"
proof -
  have new: "createIndexes (new_store (os_options x)) (declared_indexes x) = Inr (created_store x)"
    using createIndexes_distinct [OF assms, of "new_store (os_options x)"]
    by (simp add: created_store_def new_store_def store_indexes_def)
  show ?thesis
    by (simp add: upgradeStore_def deleteObjectStore_def createObjectStore_def contains_def new)
qed

lemma index_map_dom: "dom (index_map idxs) = idx_name ` set idxs"
  by (auto simp: index_map_def dom_map_of_conv_image_fst image_iff)

lemma index_map_declared:
  "distinct (map idx_name idxs) \<Longrightarrow> i \<in> set idxs \<Longrightarrow>
   index_map idxs (idx_name i) = Some (new_index (idx_keyPath i) (idx_options i))"
  unfolding index_map_def
  by (rule map_of_is_SomeI) (auto simp: comp_def)

lemma created_store_fields:
  "store_keyPath (created_store x) = (case os_options x of None \<Rightarrow> None | Some o' \<Rightarrow> keyPath o')"
  "store_autoIncrement (created_store x) = (case os_options x of None \<Rightarrow> False | Some o' \<Rightarrow> autoIncrement o' = Some True)"
  "store_records (created_store x) = Map.empty"
  "store_indexes (created_store x) = index_map (declared_indexes x)"
  by (simp_all add: created_store_def new_store_def store_records_def store_indexes_def
      index_map_def)

lemma upgradeStores_eq:
  assumes "\<forall>x\<in>set xs. distinct (map idx_name (declared_indexes x))"
  shows "\<exists>d'. upgradeStores d xs = Inr d' \<and> onversionchange d' = onversionchange d
     \<and> (\<forall>n. n \<notin> os_name ` set xs \<longrightarrow> stores d' n = stores d n)
     \<and> (\<forall>n. contains d n \<longrightarrow> contains d' n)"
  using assms
proof (induction xs arbitrary: d)
  case Nil
  then show ?case by simp
next
  case (Cons x xs)
  define d1 where "d1 = (if wants_recreate x \<or> \<not> contains d (os_name x)
          then d\<lparr>stores := (stores d)(os_name x \<mapsto> created_store x)\<rparr> else d)"
  have step: "upgradeStore d x = Inr d1"
    using Cons.prems by (simp add: upgradeStore_eq d1_def)
  obtain d' where d': "upgradeStores d1 xs = Inr d'" "onversionchange d' = onversionchange d1"
     "\<forall>n. n \<notin> os_name ` set xs \<longrightarrow> stores d' n = stores d1 n"
     "\<forall>n. contains d1 n \<longrightarrow> contains d' n"
    using Cons.IH [of d1] Cons.prems by auto
  have "\<forall>n. contains d n \<longrightarrow> contains d1 n"
    by (simp add: d1_def contains_def)
  with step d' show ?case
    by (auto simp: d1_def)
qed

lemma upgradeStores_declared:
  assumes "\<forall>x\<in>set xs. distinct (map idx_name (declared_indexes x))"
    and "distinct (map os_name xs)" and "x \<in> set xs" and "upgradeStores d xs = Inr d'"
  shows "stores d' (os_name x) =
           (if wants_recreate x \<or> \<not> contains d (os_name x)
            then Some (created_store x) else stores d (os_name x))"
  using assms
proof (induction xs arbitrary: d)
  case Nil
  then show ?case by simp
next
  case (Cons y ys)
  define d1 where "d1 = (if wants_recreate y \<or> \<not> contains d (os_name y)
          then d\<lparr>stores := (stores d)(os_name y \<mapsto> created_store y)\<rparr> else d)"
  have step: "upgradeStore d y = Inr d1"
    using Cons.prems(1) by (simp add: upgradeStore_eq d1_def)
  then have rest: "upgradeStores d1 ys = Inr d'"
    using Cons.prems(4) by simp
  have wf: "\<forall>x\<in>set ys. distinct (map idx_name (declared_indexes x))"
    using Cons.prems(1) by simp
  show ?case
  proof (cases "x = y")
    case True
    have "os_name y \<notin> os_name ` set ys"
      using Cons.prems(2) by simp
    moreover obtain e where "upgradeStores d1 ys = Inr e" "\<forall>n. n \<notin> os_name ` set ys \<longrightarrow> stores e n = stores d1 n"
      using upgradeStores_eq [OF wf, of d1] by blast
    ultimately have "stores d' (os_name y) = stores d1 (os_name y)"
      using rest by simp
    then show ?thesis
      using True by (simp add: d1_def contains_def)
  next
    case False
    then have mem: "x \<in> set ys"
      using Cons.prems(3) by simp
    then have ne: "os_name x \<noteq> os_name y"
      using Cons.prems(2) by (auto simp: image_iff)
    have "stores d' (os_name x) =
           (if wants_recreate x \<or> \<not> contains d1 (os_name x)
            then Some (created_store x) else stores d1 (os_name x))"
      using Cons.IH [OF wf _ mem rest] Cons.prems(2) by simp
    moreover have "stores d1 (os_name x) = stores d (os_name x)"
      using ne by (simp add: d1_def)
    ultimately show ?thesis
      by (simp add: contains_def)
  qed
qed

lemma upgradeStores_fixed:
  "\<forall>x\<in>set xs. upgradeStore d x = Inr d \<Longrightarrow> upgradeStores d xs = Inr d"
  by (induction xs) simp_all

lemma upgradeStores_idem:
  assumes wf: "\<forall>x\<in>set xs. distinct (map idx_name (declared_indexes x))"
    and dist: "distinct (map os_name xs)" and run: "upgradeStores d xs = Inr d'"
  shows "upgradeStores d' xs = Inr d'"
proof (rule upgradeStores_fixed, rule ballI)
  fix x assume x: "x \<in> set xs"
  have st: "stores d' (os_name x) =
           (if wants_recreate x \<or> \<not> contains d (os_name x)
            then Some (created_store x) else stores d (os_name x))"
    by (rule upgradeStores_declared [OF wf dist x run])
  then have c: "contains d' (os_name x)"
    by (auto simp: contains_def split: if_splits)
  have "wants_recreate x \<Longrightarrow> d'\<lparr>stores := (stores d')(os_name x \<mapsto> created_store x)\<rparr> = d'"
    using st by (simp add: fun_upd_idem)
  then show "upgradeStore d' x = Inr d'"
    using wf x c by (auto simp: upgradeStore_eq)
qed





text \<open>
  Claim C7, as the code has it. For a declaration with distinct store names and, in
  each store, distinct index names, an open handshake that asks for a higher version
  than the stored one ends with the connection attached and every declared store in
  the database. A declared store that the step has created (it was missing, or it is
  marked \<open>recreate\<close>) is without records and has exactly the declared indexes; a declared
  store that existed and is not marked \<open>recreate\<close> is the store it was, with the indexes
  and records it had; a store that is not declared stays as it was. The
  schema-application step is idempotent: applied to the database it has produced it
  changes nothing; and an open at the version now stored fires \<open>success\<close> alone and
  leaves the stored database as it is.
\<close>

theorem schema_application:
  assumes su: "db_setup this = Some su" "objectStores su = Some xs"
    and names: "distinct (map os_name xs)"
    and wf: "\<forall>x\<in>set xs. distinct (map idx_name (declared_indexes x))"
    and rq: "onupgradeneeded (databaseRequest this)" "onsuccess (databaseRequest this)"
    and v: "v < db_version this"
  shows "\<exists>this' d'. open_handshake this v d = (this', db_version this, d')
     \<and> (\<exists>c. db this' = Some c \<and> stores c = stores d')
     \<and> (\<forall>x\<in>set xs. \<exists>s. stores d' (os_name x) = Some s
           \<and> (wants_recreate x \<or> \<not> contains d (os_name x) \<longrightarrow>
                store_records s = Map.empty
              \<and> dom (store_indexes s) = idx_name ` set (declared_indexes x)
              \<and> (\<forall>i\<in>set (declared_indexes x).
                   store_indexes s (idx_name i) = Some (new_index (idx_keyPath i) (idx_options i))))
           \<and> (contains d (os_name x) \<and> \<not> wants_recreate x \<longrightarrow> stores d (os_name x) = Some s))
     \<and> (\<forall>n. n \<notin> os_name ` set xs \<longrightarrow> stores d' n = stores d n)
     \<and> applySchema (db_setup this) d' = Inr d'
     \<and> open_handshake this (db_version this) d' = (success this d', db_version this, d')"
proof -
  obtain d' where d': "upgradeStores d xs = Inr d'"
    and other: "\<forall>n. n \<notin> os_name ` set xs \<longrightarrow> stores d' n = stores d n"
    using upgradeStores_eq [OF wf, of d] by blast
  have ap: "applySchema (db_setup this) d = Inr d'"
    using su d' by (simp add: applySchema_def)
  have up: "upgradeneeded this d = (this\<lparr>db := Some d'\<rparr>, None)"
    by (simp add: upgradeneeded_def ap)
  have first: "open_handshake this v d = (success (this\<lparr>db := Some d'\<rparr>) d', db_version this, d')"
    using rq v by (simp add: open_handshake_def Let_def up)
  have conn: "\<exists>c. db (success (this\<lparr>db := Some d'\<rparr>) d') = Some c \<and> stores c = stores d'"
    by (simp add: success_def)
  have decl: "\<forall>x\<in>set xs. \<exists>s. stores d' (os_name x) = Some s
           \<and> (wants_recreate x \<or> \<not> contains d (os_name x) \<longrightarrow>
                store_records s = Map.empty
              \<and> dom (store_indexes s) = idx_name ` set (declared_indexes x)
              \<and> (\<forall>i\<in>set (declared_indexes x).
                   store_indexes s (idx_name i) = Some (new_index (idx_keyPath i) (idx_options i))))
           \<and> (contains d (os_name x) \<and> \<not> wants_recreate x \<longrightarrow> stores d (os_name x) = Some s)"
  proof
    fix x assume x: "x \<in> set xs"
    have st: "stores d' (os_name x) =
           (if wants_recreate x \<or> \<not> contains d (os_name x)
            then Some (created_store x) else stores d (os_name x))"
      by (rule upgradeStores_declared [OF wf names x d'])
    have ix: "store_records (created_store x) = Map.empty
       \<and> dom (store_indexes (created_store x)) = idx_name ` set (declared_indexes x)
       \<and> (\<forall>i\<in>set (declared_indexes x).
            store_indexes (created_store x) (idx_name i)
              = Some (new_index (idx_keyPath i) (idx_options i)))"
      using wf x by (simp add: created_store_fields index_map_dom index_map_declared)
    show "\<exists>s. stores d' (os_name x) = Some s
           \<and> (wants_recreate x \<or> \<not> contains d (os_name x) \<longrightarrow>
                store_records s = Map.empty
              \<and> dom (store_indexes s) = idx_name ` set (declared_indexes x)
              \<and> (\<forall>i\<in>set (declared_indexes x).
                   store_indexes s (idx_name i) = Some (new_index (idx_keyPath i) (idx_options i))))
           \<and> (contains d (os_name x) \<and> \<not> wants_recreate x \<longrightarrow> stores d (os_name x) = Some s)"
    proof (cases "wants_recreate x \<or> \<not> contains d (os_name x)")
      case True
      with st ix show ?thesis by auto
    next
      case False
      with st show ?thesis by (auto simp: contains_def)
    qed
  qed
  have again: "applySchema (db_setup this) d' = Inr d'"
    using su upgradeStores_idem [OF wf names d'] by (simp add: applySchema_def)
  have same: "open_handshake this (db_version this) d' = (success this d', db_version this, d')"
    using rq by (simp add: open_handshake_def Let_def)
  from first conn decl other again same show ?thesis
    by blast
qed

theorem schema_application_witness:
  "db_setup shop_unopened = Some shop_setup \<and> objectStores shop_setup = Some [shop_items]
   \<and> distinct (map os_name [shop_items]) \<and> 0 < db_version shop_unopened
   \<and> (\<exists>this' d' s. open_handshake shop_unopened 0 empty_db = (this', 1, d')
         \<and> stores d' ''items'' = Some s
         \<and> store_records s = Map.empty
         \<and> store_indexes s ''byColor''
             = Some \<lparr>index_keyPath = ''color'', index_unique = False, index_multiEntry = False\<rparr>
         \<and> applySchema (Some shop_setup) d' = Inr d')
   \<and> db_setup shop_next = Some shop_setup \<and> 1 < db_version shop_next
   \<and> contains plain_db ''items''
   \<and> (\<exists>this' d'. open_handshake shop_next 1 plain_db = (this', 2, d')
         \<and> stores d' ''items'' = stores plain_db ''items'')"
proof -
  have su: "db_setup shop_unopened = Some shop_setup" "objectStores shop_setup = Some [shop_items]"
    "db_setup shop_next = Some shop_setup"
    by (simp_all add: shop_unopened_def shop_next_def shop_setup_def)
  have names: "distinct (map os_name [shop_items])"
    by simp
  have wf: "\<forall>x\<in>set [shop_items]. distinct (map idx_name (declared_indexes x))"
    by (simp add: shop_items_def declared_indexes_def)
  have rq: "onupgradeneeded (databaseRequest shop_unopened)" "onsuccess (databaseRequest shop_unopened)"
    "onupgradeneeded (databaseRequest shop_next)" "onsuccess (databaseRequest shop_next)"
    by (simp_all add: shop_unopened_def shop_next_def)
  have v: "0 < db_version shop_unopened" "1 < db_version shop_next"
    by (simp_all add: shop_unopened_def shop_next_def)
  have n: "os_name shop_items = ''items''"
     "declared_indexes shop_items = [\<lparr>idx_name = ''byColor'', idx_keyPath = ''color'', idx_options = None\<rparr>]"
     "db_version shop_unopened = 1" "db_version shop_next = 2" "\<not> wants_recreate shop_items"
    by (simp_all add: shop_items_def declared_indexes_def shop_unopened_def shop_next_def
        wants_recreate_def)
  have e: "\<not> contains empty_db ''items''" "contains plain_db ''items''"
    by (simp_all add: contains_def empty_db_def plain_db_def)
  have 1: "\<exists>this' d' s. open_handshake shop_unopened 0 empty_db = (this', 1, d')
         \<and> stores d' ''items'' = Some s
         \<and> store_records s = Map.empty
         \<and> store_indexes s ''byColor''
             = Some \<lparr>index_keyPath = ''color'', index_unique = False, index_multiEntry = False\<rparr>
         \<and> applySchema (Some shop_setup) d' = Inr d'"
    using su e schema_application [OF su(1,2) names wf rq(1,2) v(1), of empty_db]
    by (auto simp: n new_index_def)
  have 2: "\<exists>this' d'. open_handshake shop_next 1 plain_db = (this', 2, d')
         \<and> stores d' ''items'' = stores plain_db ''items''"
    using e schema_application [OF su(3,2) names wf rq(3,4) v(2), of plain_db]
    by (auto simp: n)
  from su(1,2) names v e(2) su(3) 1 2 show ?thesis
    by simp
qed


text \<open>
  Claim C7 as stated fails for a store that exists and is not marked \<open>recreate\<close>: the
  stored database at version 1 has the store \<open>items\<close> without index, the declaration
  opened at version 2 declares the index \<open>byColor\<close> on it, and after the handshake the
  store still has no such index.
\<close>

theorem schema_application_counterexample:
  "declared_indexes shop_items
     = [\<lparr>idx_name = ''byColor'', idx_keyPath = ''color'', idx_options = None\<rparr>]
   \<and> fst (snd (open_handshake shop_next 1 plain_db)) = 2
   \<and> map_option (\<lambda>s. store_indexes s ''byColor'')
        (stores (snd (snd (open_handshake shop_next 1 plain_db))) ''items'') = Some None"
  by (simp add: open_handshake_def Let_def shop_next_def shop_unopened_def upgradeneeded_def
      applySchema_def shop_setup_def shop_items_def declared_indexes_def upgradeStore_def
      wants_recreate_def contains_def plain_db_def success_def has_hook_def store_indexes_def)

section \<open>Writes\<close>

lemma successes_pending:
  assumes "request_onsuccess c = None" "promise c = Pending"
  shows "promise (run c (map Success vs)) = Pending
       \<and> (vs \<noteq> [] \<longrightarrow> request_result (run c (map Success vs)) = Some (last vs))"
  using assms
proof (induction vs arbitrary: c)
  case Nil
  then show ?case by (simp add: run_Nil)
next
  case (Cons v vs)
  have "request_onsuccess (fire c (Success v)) = None" "promise (fire c (Success v)) = Pending"
    "request_result (fire c (Success v)) = Some v"
    using Cons.prems by (simp_all add: invoke_def)
  with Cons.IH [of "fire c (Success v)"] show ?case
    by (cases vs) (simp_all add: run_Cons run_Nil)
qed

lemma complete_resolves:
  assumes "request_onsuccess c = None" "promise c = Pending"
    "transaction_oncomplete c = Some ResolveResult"
  shows "promise (run c (Success v # Complete # evs)) = Resolved v"
proof -
  have "promise (fire (fire c (Success v)) Complete) = Resolved v"
    using assms by (simp add: invoke_def settle_def)
  then show ?thesis
    by (simp add: run_Cons run_settled)
qed

lemma transaction_error_first:
  assumes "request_onerror c = None" "transaction_onerror c = Some r" "promise c = Pending"
  shows "promise (run c (Error re te # evs))
         = (case r of
              RejectUndefined \<Rightarrow> Rejected Undefined
            | RejectRequestError \<Rightarrow> Rejected re
            | RejectFalse \<Rightarrow> Rejected (JBool False)
            | RejectTransactionError \<Rightarrow> Rejected te
            | ResolveTrue \<Rightarrow> Resolved (JBool True)
            | ResolveResult \<Rightarrow> Resolved Undefined)"
proof -
  have fired: "promise (fire c (Error re te))
         = (case r of
              RejectUndefined \<Rightarrow> Rejected Undefined
            | RejectRequestError \<Rightarrow> Rejected re
            | RejectFalse \<Rightarrow> Rejected (JBool False)
            | RejectTransactionError \<Rightarrow> Rejected te
            | ResolveTrue \<Rightarrow> Resolved (JBool True)
            | ResolveResult \<Rightarrow> Resolved Undefined)"
    using assms
    by (cases r) (simp_all add: Let_def invoke_def settle_def)
  then have "promise (fire c (Error re te)) \<noteq> Pending"
    by (cases r) simp_all
  with fired show ?thesis
    by (simp add: run_Cons run_settled)
qed

lemma map_of_put_record: "map_of (put_record k v rs) = (map_of rs)(k \<mapsto> v)"
  by (induction rs) (auto simp: fun_eq_iff)

lemma map_of_filter_query:
  "map_of (filter (\<lambda>(k, v). \<not> query_includes q k) rs)
     = (\<lambda>k. if query_includes q k then None else map_of rs k)"
  by (induction rs) (auto simp: fun_eq_iff)

lemma filter_query_none:
  "\<forall>k. query_includes q k \<longrightarrow> map_of rs k = None \<Longrightarrow>
   filter (\<lambda>(k, v). \<not> query_includes q k) rs = rs"
proof (induction rs)
  case Nil
  then show ?case by simp
next
  case (Cons r rs)
  obtain k v where r: "r = (k, v)" by (cases r)
  have k: "\<not> query_includes q k"
    using Cons.prems r by (auto split: if_splits)
  have "\<forall>k'. query_includes q k' \<longrightarrow> map_of rs k' = None"
    using Cons.prems r by (auto split: if_splits)
  with Cons.IH r k show ?case by simp
qed

lemma write_opened:
  assumes "db this = Some d" "stores d store = Some s" "record_key s data key = Inr ko"
  shows "add_with r this store data key =
          (acquire \<lparr>tx_scope = [store], tx_mode = Readwrite, tx_db = d\<rparr> (started this))
                      \<lparr>issued := [Write (Add store data key)],
                       transaction_oncomplete := Some ResolveResult,
                       transaction_onerror := Some r\<rparr>"
    and "put_with r this store data key =
          (acquire \<lparr>tx_scope = [store], tx_mode = Readwrite, tx_db = d\<rparr> (started this))
                      \<lparr>issued := [Write (Put store data key)],
                       transaction_oncomplete := Some ResolveResult,
                       transaction_onerror := Some r\<rparr>"
  using assms
  by (simp_all add: add_with_def put_with_def transaction_opened objectStore_opened)

lemma write_calls:
  assumes "db this = Some d" "stores d store = Some s" "record_key s data key = Inr ko"
  shows "issued (add_with r this store data key) = [Write (Add store data key)]"
    and "acquired (add_with r this store data key) = [([store], Readwrite)]"
    and "issued (put_with r this store data key) = [Write (Put store data key)]"
    and "acquired (put_with r this store data key) = [([store], Readwrite)]"
    and "(put_with r this store data key)\<lparr>issued := []\<rparr> = (add_with r this store data key)\<lparr>issued := []\<rparr>"
  by (simp_all add: write_opened [OF assms] acquire_def started_def)

lemma write_settles:
  assumes "db this = Some d" "stores d store = Some s" "record_key s data key = Inr ko"
  shows "promise (run (add_with r this store data key) (map Success vs)) = Pending"
    and "promise (run (put_with r this store data key) (map Success vs)) = Pending"
    and "promise (run (add_with r this store data key) (Success v # Complete # evs)) = Resolved v"
    and "promise (run (put_with r this store data key) (Success v # Complete # evs)) = Resolved v"
    and "promise (run (add_with RejectFalse this store data key) (Error re te # evs))
           = Rejected (JBool False)"
    and "promise (run (put_with RejectFalse this store data key) (Error re te # evs))
           = Rejected (JBool False)"
    and "promise (run (add_with RejectTransactionError this store data key) (Error re te # evs))
           = Rejected te"
    and "promise (run (put_with RejectTransactionError this store data key) (Error re te # evs))
           = Rejected te"
  by (simp_all add: write_opened [OF assms] acquire_def started_def
      successes_pending complete_resolves transaction_error_first)

lemma store_record_eq:
  assumes "record_key s data key = Inr ko"
  shows "store_record b s data key =
           (if b \<and> store_records s (record_at s ko) \<noteq> None then Inl ConstraintError
            else if breaks_unique s (record_at s ko) (record_value s data ko) then Inl ConstraintError
            else Inr (record_at s ko,
                      s\<lparr>store_record_list :=
                           put_record (record_at s ko) (record_value s data ko) (store_record_list s),
                        store_keygen := next_keygen s (record_at s ko)\<rparr>))"
  using assms by (simp add: store_record_def Let_def)

lemma write_refused:
  assumes "db this = Some d" "stores d store = Some s" "record_key s data key = Inr ko"
  shows "store_records s (record_at s ko) \<noteq> None
           \<or> breaks_unique s (record_at s ko) (record_value s data ko) \<Longrightarrow>
         transact d d (writes (issued (add_with r this store data key)))
           = ([Error (JDOMException ConstraintError) Null, Abort], d)"
    and "breaks_unique s (record_at s ko) (record_value s data ko) \<Longrightarrow>
         transact d d (writes (issued (put_with r this store data key)))
           = ([Error (JDOMException ConstraintError) Null, Abort], d)"
  using assms(2)
  by (auto simp: write_calls [OF assms] store_record_eq [OF assms(3)])

lemma write_stored:
  assumes "db this = Some d" "stores d store = Some s" "record_key s data key = Inr ko"
    and "\<not> breaks_unique s (record_at s ko) (record_value s data ko)"
  shows "fst (transact d d (writes (issued (put_with r this store data key))))
           = [Success (key_value (record_at s ko)), Complete]"
    and "\<exists>s'. stores (snd (transact d d (writes (issued (put_with r this store data key))))) store
                = Some s'
             \<and> store_records s' = (store_records s)(record_at s ko \<mapsto> record_value s data ko)"
    and "store_records s (record_at s ko) = None \<Longrightarrow>
         transact d d (writes (issued (add_with r this store data key)))
           = transact d d (writes (issued (put_with r this store data key)))"
  using assms(2,4)
  by (simp_all add: write_calls [OF assms(1-3)] store_record_eq [OF assms(3)]
      store_records_def map_of_put_record)

text \<open>
  Claim C4. On an instance with a connection, for a store of the database and a record
  that has a key or gets one from the generator, \<open>add\<close> and \<open>put\<close> acquire one
  read-write transaction on the store and issue one request. The returned promise is
  pending then and after the request's \<open>success\<close>, resolves with the request's result
  (the key) when the transaction fires \<open>complete\<close>, and rejects when an \<open>error\<close> reaches
  the transaction (with \<open>false\<close> in \<open>src/db.ts\<close>, with \<open>transaction.error\<close> in the other
  version). \<open>put\<close> is \<open>add\<close> with the engine's \<open>put\<close> request in place of its \<open>add\<close>
  request, and so the two differ only where the engine does: with a record already
  under the key the insert fails, the transaction aborts, the database stays as it was
  and \<open>add\<close> rejects, while the upsert replaces the record and \<open>put\<close> resolves with the
  key; without such a record both store the record and resolve with the key. A record
  that breaks a unique index makes both fail.
\<close>

theorem write_settlement:
  assumes "db this = Some d" "stores d store = Some s" "record_key s data key = Inr ko"
  shows
   "(issued (add this store data key) = [Write (Add store data key)]
     \<and> acquired (add this store data key) = [([store], Readwrite)]
     \<and> promise (run (add this store data key) (map Success vs)) = Pending
     \<and> promise (run (add this store data key) (Success v # Complete # evs)) = Resolved v
     \<and> promise (run (add this store data key) (Error re te # evs)) = Rejected (JBool False))
  \<and> (issued (put this store data key) = [Write (Put store data key)]
     \<and> acquired (put this store data key) = [([store], Readwrite)]
     \<and> promise (run (put this store data key) (map Success vs)) = Pending
     \<and> promise (run (put this store data key) (Success v # Complete # evs)) = Resolved v
     \<and> promise (run (put this store data key) (Error re te # evs)) = Rejected (JBool False))
  \<and> (issued (add_000 this store data key) = [Write (Add store data key)]
     \<and> acquired (add_000 this store data key) = [([store], Readwrite)]
     \<and> promise (run (add_000 this store data key) (map Success vs)) = Pending
     \<and> promise (run (add_000 this store data key) (Success v # Complete # evs)) = Resolved v
     \<and> promise (run (add_000 this store data key) (Error re te # evs)) = Rejected te)
  \<and> (issued (put_000 this store data key) = [Write (Put store data key)]
     \<and> acquired (put_000 this store data key) = [([store], Readwrite)]
     \<and> promise (run (put_000 this store data key) (map Success vs)) = Pending
     \<and> promise (run (put_000 this store data key) (Success v # Complete # evs)) = Resolved v
     \<and> promise (run (put_000 this store data key) (Error re te # evs)) = Rejected te)
  \<and> ((put this store data key)\<lparr>issued := []\<rparr> = (add this store data key)\<lparr>issued := []\<rparr>
     \<and> (put_000 this store data key)\<lparr>issued := []\<rparr> = (add_000 this store data key)\<lparr>issued := []\<rparr>)
  \<and> (store_records s (record_at s ko) \<noteq> None
       \<or> breaks_unique s (record_at s ko) (record_value s data ko) \<longrightarrow>
        promise (run (add this store data key)
                  (fst (transact d d (writes (issued (add this store data key))))))
          = Rejected (JBool False)
      \<and> promise (run (add_000 this store data key)
                  (fst (transact d d (writes (issued (add_000 this store data key))))))
          = Rejected Null
      \<and> snd (transact d d (writes (issued (add this store data key)))) = d
      \<and> snd (transact d d (writes (issued (add_000 this store data key)))) = d)
  \<and> (breaks_unique s (record_at s ko) (record_value s data ko) \<longrightarrow>
        promise (run (put this store data key)
                  (fst (transact d d (writes (issued (put this store data key))))))
          = Rejected (JBool False)
      \<and> promise (run (put_000 this store data key)
                  (fst (transact d d (writes (issued (put_000 this store data key))))))
          = Rejected Null
      \<and> snd (transact d d (writes (issued (put this store data key)))) = d
      \<and> snd (transact d d (writes (issued (put_000 this store data key)))) = d)
  \<and> (\<not> breaks_unique s (record_at s ko) (record_value s data ko) \<longrightarrow>
        promise (run (put this store data key)
                  (fst (transact d d (writes (issued (put this store data key))))))
          = Resolved (key_value (record_at s ko))
      \<and> promise (run (put_000 this store data key)
                  (fst (transact d d (writes (issued (put_000 this store data key))))))
          = Resolved (key_value (record_at s ko))
      \<and> (\<exists>s'. stores (snd (transact d d (writes (issued (put this store data key))))) store
                 = Some s'
              \<and> store_records s' = (store_records s)(record_at s ko \<mapsto> record_value s data ko))
      \<and> transact d d (writes (issued (put_000 this store data key)))
          = transact d d (writes (issued (put this store data key)))
      \<and> (store_records s (record_at s ko) = None \<longrightarrow>
            promise (run (add this store data key)
                      (fst (transact d d (writes (issued (add this store data key))))))
              = Resolved (key_value (record_at s ko))
          \<and> promise (run (add_000 this store data key)
                      (fst (transact d d (writes (issued (add_000 this store data key))))))
              = Resolved (key_value (record_at s ko))
          \<and> transact d d (writes (issued (add this store data key)))
              = transact d d (writes (issued (put this store data key)))
          \<and> transact d d (writes (issued (add_000 this store data key)))
              = transact d d (writes (issued (put this store data key)))))"
  (is "?add \<and> ?put \<and> ?addz \<and> ?putz \<and> ?same \<and> (?taken \<longrightarrow> ?refused)
       \<and> (?broken \<longrightarrow> ?refused_put) \<and> (\<not> ?broken \<longrightarrow> ?stored)")
proof -
  note c = write_calls [OF assms] and w = write_settles [OF assms]
  have a: ?add and b: ?put and a0: ?addz and b0: ?putz and e: ?same
    by (simp_all add: add_def put_def add_000_def put_000_def c w)
  have f: "?taken \<longrightarrow> ?refused"
  proof
    assume t: ?taken
    show ?refused
      using write_refused(1) [OF assms t] w(5,7) [of "JDOMException ConstraintError" Null "[Abort]"]
      by (simp add: add_def add_000_def)
  qed
  have g: "?broken \<longrightarrow> ?refused_put"
  proof
    assume t: ?broken
    show ?refused_put
      using write_refused(2) [OF assms t] w(6,8) [of "JDOMException ConstraintError" Null "[Abort]"]
      by (simp add: put_def put_000_def)
  qed
  have h: "\<not> ?broken \<longrightarrow> ?stored"
  proof
    assume t: "\<not> ?broken"
    have p: "transact d d (writes (issued (put_with r this store data key)))
               = transact d d (writes (issued (put_with RejectFalse this store data key)))" for r
      by (simp add: c)
    show ?stored
      using write_stored [OF assms t, of RejectFalse]
        write_stored(3) [OF assms t, of RejectTransactionError]
        w(3,4) [of _ "key_value (record_at s ko)" "[]"] p [of RejectTransactionError]
      by (simp add: add_def put_def add_000_def put_000_def)
  qed
  from a b a0 b0 e f g h show ?thesis
    by blast
qed


theorem write_settlement_witness:
  "db shop = Some shop_db \<and> stores shop_db ''items'' = Some shop_store
   \<and> record_key shop_store (JObject [(''color'', JStr ''blue'')]) None = Inr None
   \<and> record_at shop_store None = KNum 2
   \<and> store_records shop_store (KNum 2) = None
   \<and> \<not> breaks_unique shop_store (KNum 2)
         (record_value shop_store (JObject [(''color'', JStr ''blue'')]) None)
   \<and> issued (add shop ''items'' (JObject [(''color'', JStr ''blue'')]) None)
       = [Write (Add ''items'' (JObject [(''color'', JStr ''blue'')]) None)]
   \<and> promise (run (add shop ''items'' (JObject [(''color'', JStr ''blue'')]) None) [Success (JNum 2)])
       = Pending
   \<and> promise (run (add shop ''items'' (JObject [(''color'', JStr ''blue'')]) None)
                (fst (transact shop_db shop_db
                       (writes (issued (add shop ''items'' (JObject [(''color'', JStr ''blue'')]) None))))))
       = Resolved (JNum 2)
   \<and> promise (run (put_000 shop ''items'' (JObject [(''color'', JStr ''blue'')]) None)
                [Error (JDOMException UnknownError) Null, Abort]) = Rejected Null
   \<and> record_key shop_store (JObject [(''color'', JStr ''blue''), (''id'', JNum 1)]) None
       = Inr (Some (KNum 1))
   \<and> store_records shop_store (KNum 1) \<noteq> None
   \<and> promise (run (add shop ''items'' (JObject [(''color'', JStr ''blue''), (''id'', JNum 1)]) None)
                (fst (transact shop_db shop_db
                       (writes (issued (add shop ''items''
                          (JObject [(''color'', JStr ''blue''), (''id'', JNum 1)]) None))))))
       = Rejected (JBool False)
   \<and> promise (run (put shop ''items'' (JObject [(''color'', JStr ''blue''), (''id'', JNum 1)]) None)
                (fst (transact shop_db shop_db
                       (writes (issued (put shop ''items''
                          (JObject [(''color'', JStr ''blue''), (''id'', JNum 1)]) None))))))
       = Resolved (JNum 1)
   \<and> db unique_shop = Some unique_db \<and> stores unique_db ''items'' = Some unique_store
   \<and> record_key unique_store (JObject [(''color'', JStr ''red'')]) None = Inr None
   \<and> breaks_unique unique_store (KNum 2)
         (record_value unique_store (JObject [(''color'', JStr ''red'')]) None)
   \<and> promise (run (put unique_shop ''items'' (JObject [(''color'', JStr ''red'')]) None)
                (fst (transact unique_db unique_db
                       (writes (issued (put unique_shop ''items''
                          (JObject [(''color'', JStr ''red'')]) None))))))
       = Rejected (JBool False)"
proof -
  have h: "db shop = Some shop_db" "stores shop_db ''items'' = Some shop_store"
    by (simp_all add: shop_def shop_db_def)
  have k: "record_key shop_store (JObject [(''color'', JStr ''blue'')]) None = Inr None"
    by (simp add: record_key_def shop_store_def key_path_def)
  have r: "record_at shop_store None = KNum 2"
    by (simp add: record_at_def shop_store_def)
  have f: "store_records shop_store (record_at shop_store None) = None"
    by (simp add: record_at_def shop_store_def store_records_def)
  have u: "\<not> breaks_unique shop_store (record_at shop_store None)
               (record_value shop_store (JObject [(''color'', JStr ''blue'')]) None)"
    by (simp add: breaks_unique_def shop_store_def)
  note w = write_settlement [OF h k, of "[JNum 2]" "JNum 2" "[Abort]"
      "JDOMException UnknownError" Null]
  have 1: "issued (add shop ''items'' (JObject [(''color'', JStr ''blue'')]) None)
       = [Write (Add ''items'' (JObject [(''color'', JStr ''blue'')]) None)]"
    using w by blast
  have 2: "promise (run (add shop ''items'' (JObject [(''color'', JStr ''blue'')]) None)
              (map Success [JNum 2])) = Pending"
    using w by blast
  have 3: "promise (run (add shop ''items'' (JObject [(''color'', JStr ''blue'')]) None)
                (fst (transact shop_db shop_db
                       (writes (issued (add shop ''items'' (JObject [(''color'', JStr ''blue'')]) None))))))
       = Resolved (key_value (record_at shop_store None))"
    using w f u by blast
  have 4: "promise (run (put_000 shop ''items'' (JObject [(''color'', JStr ''blue'')]) None)
                (Error (JDOMException UnknownError) Null # [Abort])) = Rejected Null"
    using w by blast
  have k': "record_key shop_store (JObject [(''color'', JStr ''blue''), (''id'', JNum 1)]) None
             = Inr (Some (KNum 1))"
    by (simp add: record_key_def shop_store_def key_path_def)
  have r': "record_at shop_store (Some (KNum 1)) = KNum 1"
    by (simp add: record_at_def)
  have t': "store_records shop_store (record_at shop_store (Some (KNum 1))) \<noteq> None"
    by (simp add: record_at_def shop_store_def store_records_def)
  have u': "\<not> breaks_unique shop_store (record_at shop_store (Some (KNum 1)))
               (record_value shop_store (JObject [(''color'', JStr ''blue''), (''id'', JNum 1)])
                  (Some (KNum 1)))"
    by (simp add: breaks_unique_def shop_store_def)
  note w' = write_settlement [OF h k', of "[]" Undefined "[]" Undefined Undefined]
  have 5: "promise (run (add shop ''items'' (JObject [(''color'', JStr ''blue''), (''id'', JNum 1)]) None)
                (fst (transact shop_db shop_db
                       (writes (issued (add shop ''items''
                          (JObject [(''color'', JStr ''blue''), (''id'', JNum 1)]) None))))))
       = Rejected (JBool False)"
    using w' t' by blast
  have 6: "promise (run (put shop ''items'' (JObject [(''color'', JStr ''blue''), (''id'', JNum 1)]) None)
                (fst (transact shop_db shop_db
                       (writes (issued (put shop ''items''
                          (JObject [(''color'', JStr ''blue''), (''id'', JNum 1)]) None))))))
       = Resolved (key_value (record_at shop_store (Some (KNum 1))))"
    using w' u' by blast
  have h'': "db unique_shop = Some unique_db" "stores unique_db ''items'' = Some unique_store"
    by (simp_all add: unique_shop_def unique_db_def)
  have k'': "record_key unique_store (JObject [(''color'', JStr ''red'')]) None = Inr None"
    by (simp add: record_key_def unique_store_def shop_store_def key_path_def)
  have r'': "record_at unique_store None = KNum 2"
    by (simp add: record_at_def unique_store_def shop_store_def)
  have u'': "breaks_unique unique_store (record_at unique_store None)
               (record_value unique_store (JObject [(''color'', JStr ''red'')]) None)"
    by (simp add: breaks_unique_def unique_store_def shop_store_def record_value_def record_at_def
        key_path_def index_key_def)
  note w'' = write_settlement [OF h'' k'', of "[]" Undefined "[]" Undefined Undefined]
  have 7: "promise (run (put unique_shop ''items'' (JObject [(''color'', JStr ''red'')]) None)
                (fst (transact unique_db unique_db
                       (writes (issued (put unique_shop ''items''
                          (JObject [(''color'', JStr ''red'')]) None))))))
       = Rejected (JBool False)"
    using w'' u'' by blast
  from h k r f u 1 2 3 4 k' r' t' 5 6 h'' k'' r'' u'' 7 show ?thesis
    by simp
qed

section \<open>Deletes\<close>

lemma delete_with_handlers:
  "transaction_oncomplete (delete_with r this store q) = None
   \<and> transaction_onerror (delete_with r this store q) = None
   \<and> promise (delete_with r this store q) = Pending
   \<and> (request_onsuccess (delete_with r this store q) = None
        \<and> request_onerror (delete_with r this store q) = None
      \<or> request_onsuccess (delete_with r this store q) = Some ResolveTrue
        \<and> request_onerror (delete_with r this store q) = Some r)"
  by (auto simp: delete_with_def acquire_def started_def split: prod.splits sum.splits)

lemma success_first:
  assumes "request_onsuccess c = Some ResolveTrue" "promise c = Pending"
  shows "promise (run c (Success v # evs)) = Resolved (JBool True)"
proof -
  have "promise (fire c (Success v)) = Resolved (JBool True)"
    using assms by (simp add: invoke_def settle_def)
  then show ?thesis
    by (simp add: run_Cons run_settled)
qed

lemma delete_opened:
  assumes "db this = Some d" "stores d store = Some s"
  shows "delete_with r this store q =
          (acquire \<lparr>tx_scope = [store], tx_mode = Readwrite, tx_db = d\<rparr> (started this))
                 \<lparr>issued := [Write (Delete store q)],
                  request_onsuccess := Some ResolveTrue,
                  request_onerror := Some r\<rparr>"
  using assms
  by (simp add: delete_with_def transaction_opened objectStore_opened)

lemma delete_calls:
  assumes "db this = Some d" "stores d store = Some s"
  shows "issued (delete_with r this store q) = [Write (Delete store q)]"
    and "acquired (delete_with r this store q) = [([store], Readwrite)]"
    and "promise (delete_with r this store q) = Pending"
    and "promise (run (delete_with r this store q) (Success v # evs)) = Resolved (JBool True)"
    and "promise (run (delete_with RejectFalse this store q) (Error re te # evs))
           = Rejected (JBool False)"
    and "promise (run (delete_with RejectRequestError this store q) (Error re te # evs))
           = Rejected re"
  by (simp_all add: delete_opened [OF assms] acquire_def started_def success_first error_first)

lemma delete_transact:
  assumes "db this = Some d" "stores d store = Some s"
  shows "fst (transact d d (writes (issued (delete_with r this store q))))
           = [Success Undefined, Complete]"
    and "\<exists>s'. stores (snd (transact d d (writes (issued (delete_with r this store q))))) store
                = Some s'
             \<and> store_records s' = (\<lambda>k. if query_includes q k then None else store_records s k)"
    and "\<forall>k. query_includes q k \<longrightarrow> store_records s k = None \<Longrightarrow>
         snd (transact d d (writes (issued (delete_with r this store q)))) = d"
proof -
  show "fst (transact d d (writes (issued (delete_with r this store q))))
           = [Success Undefined, Complete]"
    using assms by (simp add: delete_opened [OF assms])
  show "\<exists>s'. stores (snd (transact d d (writes (issued (delete_with r this store q))))) store
                = Some s'
             \<and> store_records s' = (\<lambda>k. if query_includes q k then None else store_records s k)"
    using assms unfolding store_records_def
    by (simp add: delete_opened [OF assms] map_of_filter_query)
  assume none: "\<forall>k. query_includes q k \<longrightarrow> store_records s k = None"
  then have "filter (\<lambda>(k, v). \<not> query_includes q k) (store_record_list s) = store_record_list s"
    by (intro filter_query_none) (simp add: store_records_def)
  then have "d\<lparr>stores := (stores d)(store \<mapsto>
                s\<lparr>store_record_list :=
                     filter (\<lambda>(k, v). \<not> query_includes q k) (store_record_list s)\<rparr>)\<rparr> = d"
    using assms(2) by (simp add: fun_upd_idem)
  then show "snd (transact d d (writes (issued (delete_with r this store q)))) = d"
    using assms by (simp add: delete_opened [OF assms])
qed

text \<open>With only request handlers set, a rejection comes from an \<open>error\<close> event.\<close>

lemma rejected_by_error:
  assumes "transaction_oncomplete c = None" "transaction_onerror c = None"
    "request_onsuccess c = Some ResolveTrue" "request_onerror c = Some r" "promise c = Pending"
    "promise (run c evs) = Rejected e"
  shows "\<exists>re te. Error re te \<in> set evs \<and> (r = RejectRequestError \<longrightarrow> e = re)"
  using assms
proof (induction evs arbitrary: c)
  case Nil
  then show ?case by (simp add: run_Nil)
next
  case (Cons ev evs)
  show ?case
  proof (cases ev)
    case (Success v)
    have "promise (run c (Success v # evs)) = Resolved (JBool True)"
      using Cons.prems by (simp add: success_first)
    with Cons.prems(6) Success show ?thesis by simp
  next
    case (Error re te)
    have "r = RejectRequestError \<Longrightarrow> promise (run c (Error re te # evs)) = Rejected re"
      using Cons.prems by (simp add: error_first)
    with Cons.prems(6) Error show ?thesis by auto
  next
    case Complete
    have "fire c Complete = c"
      using Cons.prems by (simp add: invoke_def)
    with Cons.IH [of c] Cons.prems Complete show ?thesis
      by (auto simp: run_Cons)
  next
    case Abort
    with Cons.IH [of c] Cons.prems show ?thesis
      by (auto simp: run_Cons)
  qed
qed

lemma delete_rejected:
  assumes "promise (run (delete_with r this store q) evs) = Rejected e"
  shows "\<exists>re te. Error re te \<in> set evs \<and> (r = RejectRequestError \<longrightarrow> e = re)"
proof -
  let ?c = "delete_with r this store q"
  from delete_with_handlers [of r this store q]
  consider "transaction_oncomplete ?c = None" "transaction_onerror ?c = None"
      "request_onsuccess ?c = None" "request_onerror ?c = None" "promise ?c = Pending"
    | "transaction_oncomplete ?c = None" "transaction_onerror ?c = None"
      "request_onsuccess ?c = Some ResolveTrue" "request_onerror ?c = Some r" "promise ?c = Pending"
    by auto
  then show ?thesis
  proof cases
    case 1
    then have "promise (run ?c evs) = Pending"
      by (simp add: run_no_handlers)
    with assms show ?thesis by simp
  next
    case 2
    then show ?thesis
      using assms by (rule rejected_by_error)
  qed
qed

text \<open>
  Claim C5. On an instance with a connection and for a store of the database, \<open>delete\<close>
  acquires one read-write transaction on the store and issues one delete request; the
  returned promise is pending then, resolves with \<open>true\<close> at the request's \<open>success\<close>
  event, whatever follows and before any \<open>complete\<close> of the transaction, and rejects at
  the request's \<open>error\<close> event (with \<open>false\<close> in \<open>src/db.ts\<close>, with the request's error
  in the other version). The engine's delete succeeds whether or not a record matches:
  it removes the records that the query includes, and \<open>delete\<close> resolves with \<open>true\<close>;
  when no record matches the database is as before. For every instance and argument, a
  rejected promise of \<open>delete\<close> comes from an \<open>error\<close> event of the request.
\<close>

theorem delete_settlement:
  "(db this = Some d \<and> stores d store = Some s \<longrightarrow>
      (issued (delete this store q) = [Write (Delete store q)]
       \<and> acquired (delete this store q) = [([store], Readwrite)]
       \<and> promise (delete this store q) = Pending
       \<and> promise (run (delete this store q) (Success v # evs)) = Resolved (JBool True)
       \<and> promise (run (delete this store q) (Error re te # evs)) = Rejected (JBool False))
    \<and> (issued (delete_000 this store q) = [Write (Delete store q)]
       \<and> acquired (delete_000 this store q) = [([store], Readwrite)]
       \<and> promise (delete_000 this store q) = Pending
       \<and> promise (run (delete_000 this store q) (Success v # evs)) = Resolved (JBool True)
       \<and> promise (run (delete_000 this store q) (Error re te # evs)) = Rejected re)
    \<and> fst (transact d d (writes (issued (delete this store q)))) = [Success Undefined, Complete]
    \<and> transact d d (writes (issued (delete_000 this store q)))
        = transact d d (writes (issued (delete this store q)))
    \<and> promise (run (delete this store q)
                (fst (transact d d (writes (issued (delete this store q))))))
        = Resolved (JBool True)
    \<and> promise (run (delete_000 this store q)
                (fst (transact d d (writes (issued (delete_000 this store q))))))
        = Resolved (JBool True)
    \<and> (\<exists>s'. stores (snd (transact d d (writes (issued (delete this store q))))) store = Some s'
            \<and> store_records s' = (\<lambda>k. if query_includes q k then None else store_records s k))
    \<and> ((\<forall>k. query_includes q k \<longrightarrow> store_records s k = None) \<longrightarrow>
          snd (transact d d (writes (issued (delete this store q)))) = d
        \<and> snd (transact d d (writes (issued (delete_000 this store q)))) = d))
 \<and> (promise (run (delete this store q) evs') = Rejected e \<longrightarrow>
      (\<exists>re' te'. Error re' te' \<in> set evs'))
 \<and> (promise (run (delete_000 this store q) evs') = Rejected e \<longrightarrow>
      (\<exists>te'. Error e te' \<in> set evs'))"
  (is "(?opened \<longrightarrow> ?engine) \<and> ?ra \<and> ?rb")
proof -
  have c: "?opened \<longrightarrow> ?engine"
  proof (intro impI, elim conjE)
    assume h: "db this = Some d" "stores d store = Some s"
    have i: "issued (delete_with r this store q) = [Write (Delete store q)]" for r
      by (simp add: delete_calls [OF h])
    show ?engine
      using delete_transact [OF h, where r = RejectFalse and q = q] delete_calls [OF h]
      by (simp add: delete_def delete_000_def i)
  qed
  have d: ?ra
    using delete_rejected [of RejectFalse this store q evs' e]
    by (auto simp: delete_def)
  have e: ?rb
    using delete_rejected [of RejectRequestError this store q evs' e]
    by (auto simp: delete_000_def)
  from c d e show ?thesis
    by blast
qed

theorem delete_settlement_witness:
  "db shop = Some shop_db \<and> stores shop_db ''items'' = Some shop_store
   \<and> store_records shop_store (KNum 1) \<noteq> None
   \<and> issued (delete shop ''items'' (QKey (KNum 1))) = [Write (Delete ''items'' (QKey (KNum 1)))]
   \<and> promise (delete shop ''items'' (QKey (KNum 1))) = Pending
   \<and> promise (run (delete shop ''items'' (QKey (KNum 1))) [Success Undefined])
       = Resolved (JBool True)
   \<and> promise (run (delete shop ''items'' (QKey (KNum 1)))
                (fst (transact shop_db shop_db
                       (writes (issued (delete shop ''items'' (QKey (KNum 1))))))))
       = Resolved (JBool True)
   \<and> promise (run (delete_000 shop ''items'' (QKey (KNum 1)))
                [Error (JDOMException UnknownError) Null, Abort])
       = Rejected (JDOMException UnknownError)"
proof -
  have h: "db shop = Some shop_db" "stores shop_db ''items'' = Some shop_store"
    by (simp_all add: shop_def shop_db_def)
  have m: "store_records shop_store (KNum 1) \<noteq> None"
    by (simp add: shop_store_def store_records_def)
  show ?thesis
    using h m
      delete_settlement [of shop shop_db "''items''" shop_store "QKey (KNum 1)" Undefined "[]"
        "JDOMException UnknownError" Null]
      delete_settlement [of shop shop_db "''items''" shop_store "QKey (KNum 1)" Undefined "[Abort]"
        "JDOMException UnknownError" Null]
    by simp
qed

section \<open>Clearing stores\<close>

lemma clearEach_all:
  "\<forall>n\<in>set ns. n \<in> set (tx_scope t) \<and> stores (tx_db t) n \<noteq> None \<Longrightarrow>
   clearEach t ns = (map (\<lambda>n. Write (Clear n)) ns, None)"
  by (induction ns) (auto simp: objectStore_def)

lemma clear_same:
  "issued (clear this sn) = issued (clear_000 this sn)"
  "acquired (clear this sn) = acquired (clear_000 this sn)"
  by (auto simp: clear_def clear_000_def acquire_def started_def split: prod.splits sum.splits option.splits)

lemma clear_transaction:
  assumes "db this = Some d" "named sn \<noteq> []" "\<forall>n\<in>set (named sn). contains d n"
  shows "transaction this sn (Some Readwrite)
           = (Inr \<lparr>tx_scope = remdups (named sn), tx_mode = Readwrite, tx_db = d\<rparr>, this)"
    and "clearStores \<lparr>tx_scope = remdups (named sn), tx_mode = Readwrite, tx_db = d\<rparr> sn
           = (map (\<lambda>n. Write (Clear n)) (named sn), None)"
proof -
  show "transaction this sn (Some Readwrite)
           = (Inr \<lparr>tx_scope = remdups (named sn), tx_mode = Readwrite, tx_db = d\<rparr>, this)"
    using assms by (cases sn) (auto simp: transaction_def db_transaction_def named_def)
  have "clearEach \<lparr>tx_scope = remdups (named sn), tx_mode = Readwrite, tx_db = d\<rparr> (named sn)
           = (map (\<lambda>n. Write (Clear n)) (named sn), None)"
    using assms(3) by (intro clearEach_all) (simp add: contains_def)
  then show "clearStores \<lparr>tx_scope = remdups (named sn), tx_mode = Readwrite, tx_db = d\<rparr> sn
           = (map (\<lambda>n. Write (Clear n)) (named sn), None)"
    by (cases sn) (simp_all add: clearStores_def named_def)
qed

lemma clear_opened:
  assumes "db this = Some d" "named sn \<noteq> []" "\<forall>n\<in>set (named sn). contains d n"
  shows "clear this sn =
           (acquire \<lparr>tx_scope = remdups (named sn), tx_mode = Readwrite, tx_db = d\<rparr> (started this))
             \<lparr>issued := map (\<lambda>n. Write (Clear n)) (named sn), promise := Resolved Undefined\<rparr>"
    and "clear_000 this sn =
           (acquire \<lparr>tx_scope = remdups (named sn), tx_mode = Readwrite, tx_db = d\<rparr> (started this))
             \<lparr>issued := map (\<lambda>n. Write (Clear n)) (named sn),
              transaction_oncomplete := Some ResolveTrue,
              transaction_onerror := Some RejectTransactionError\<rparr>"
  by (simp_all add: clear_def clear_000_def clear_transaction [OF assms])

lemma clear_no_handlers:
  "request_onsuccess (clear this sn) = None \<and> request_onerror (clear this sn) = None
   \<and> transaction_oncomplete (clear this sn) = None \<and> transaction_onerror (clear this sn) = None"
  by (auto simp: clear_def acquire_def started_def split: prod.splits sum.splits option.splits)

lemma commit_settles:
  assumes "request_onsuccess c = None" "request_onerror c = None" "promise c = Pending"
    "transaction_oncomplete c = Some ResolveTrue" "transaction_onerror c = Some RejectTransactionError"
  shows "promise (run c (map Success vs)) = Pending"
    and "promise (run c (map Success vs @ Complete # evs)) = Resolved (JBool True)"
    and "promise (run c (map Success vs @ Error re te # evs)) = Rejected te"
proof -
  let ?c = "run c (map Success vs)"
  show p: "promise ?c = Pending"
    using assms by (simp add: successes_pending)
  have "promise (fire ?c Complete) = Resolved (JBool True)"
    using assms p by (simp add: run_fields invoke_def settle_def)
  then show "promise (run c (map Success vs @ Complete # evs)) = Resolved (JBool True)"
    by (simp add: run_append run_Cons run_settled)
  show "promise (run c (map Success vs @ Error re te # evs)) = Rejected te"
    using assms p by (simp add: run_append run_fields transaction_error_first)
qed

lemma transact_clears:
  "\<forall>n\<in>set ns. contains d n \<Longrightarrow>
   fst (transact d0 d (map Clear ns)) = map (\<lambda>n. Success Undefined) ns @ [Complete]
   \<and> (\<forall>n. stores (snd (transact d0 d (map Clear ns))) n =
            (if n \<in> set ns then map_option (\<lambda>s. s\<lparr>store_record_list := []\<rparr>) (stores d n)
             else stores d n))"
proof (induction ns arbitrary: d)
  case Nil
  then show ?case by simp
next
  case (Cons m ns)
  then obtain s where s: "stores d m = Some s"
    by (auto simp: contains_def)
  define d1 where "d1 = d\<lparr>stores := (stores d)(m \<mapsto> s\<lparr>store_record_list := []\<rparr>)\<rparr>"
  have "\<forall>n\<in>set ns. contains d1 n"
    using Cons.prems by (simp add: d1_def contains_def)
  from Cons.IH [OF this] s show ?case
    by (auto simp: d1_def split: prod.splits)
qed

lemma writes_clears: "writes (map (\<lambda>n. Write (Clear n)) ns) = map Clear ns"
  by (induction ns) simp_all

text \<open>
  Claim C6. The two versions of \<open>clear\<close> acquire the same transactions and issue the
  same requests, for every instance and argument. On an instance with a connection, for
  one or more stores of the database, that is a single read-write transaction scoped to
  the named stores and one clear request for each name, in order, after which each
  named store of the database is without records. The versions differ in the returned
  promise only: the one of \<open>unnamed/part_000\<close> is pending until the transaction fires
  \<open>complete\<close>, when it resolves with \<open>true\<close>, or until an \<open>error\<close> reaches the
  transaction, when it rejects with \<open>transaction.error\<close>; the one of \<open>src/db.ts\<close> is
  resolved with \<open>undefined\<close> when the method returns, and no event of the clears ever
  changes it.
\<close>

theorem clear_versions:
  "issued (clear this sn) = issued (clear_000 this sn)
 \<and> acquired (clear this sn) = acquired (clear_000 this sn)
 \<and> promise (run (clear this sn) evs') = promise (clear this sn)
 \<and> (db this = Some d \<and> named sn \<noteq> [] \<and> (\<forall>n\<in>set (named sn). contains d n) \<longrightarrow>
      acquired (clear this sn) = [(remdups (named sn), Readwrite)]
    \<and> issued (clear this sn) = map (\<lambda>n. Write (Clear n)) (named sn)
    \<and> (\<forall>n\<in>set (named sn).
          \<exists>s. stores (snd (transact d d (writes (issued (clear this sn))))) n = Some s
             \<and> store_records s = Map.empty)
    \<and> promise (clear this sn) = Resolved Undefined
    \<and> promise (run (clear_000 this sn) (map Success vs)) = Pending
    \<and> promise (run (clear_000 this sn) (map Success vs @ Complete # evs)) = Resolved (JBool True)
    \<and> promise (run (clear_000 this sn) (map Success vs @ Error re te # evs)) = Rejected te)"
  (is "?i \<and> ?a \<and> ?p \<and> (?opened \<longrightarrow> ?rest)")
proof -
  have p: ?p
    using clear_no_handlers [of this sn] by (simp add: run_no_handlers)
  have r: "?opened \<longrightarrow> ?rest"
  proof (intro impI, elim conjE)
    assume h: "db this = Some d" "named sn \<noteq> []" "\<forall>n\<in>set (named sn). contains d n"
    have e: "\<forall>n\<in>set (named sn).
          \<exists>s. stores (snd (transact d d (writes (issued (clear this sn))))) n = Some s
             \<and> store_records s = Map.empty"
      using transact_clears [OF h(3), of d] h(3)
      by (auto simp: clear_opened [OF h] writes_clears contains_def store_records_def)
    have c: "promise (run (clear_000 this sn) (map Success vs)) = Pending
    \<and> promise (run (clear_000 this sn) (map Success vs @ Complete # evs)) = Resolved (JBool True)
    \<and> promise (run (clear_000 this sn) (map Success vs @ Error re te # evs)) = Rejected te"
      by (simp add: clear_opened [OF h] commit_settles acquire_def started_fields)
    show ?rest
      using e c by (simp add: clear_opened [OF h] acquire_def started_fields)
  qed
  have i: ?i and a: ?a
    by (simp_all add: clear_same)
  from i a p r show ?thesis
    by blast
qed

theorem clear_versions_witness:
  "db shop = Some shop_db \<and> named (Names [''items'']) \<noteq> []
   \<and> contains shop_db ''items''
   \<and> acquired (clear shop (Names [''items''])) = [([''items''], Readwrite)]
   \<and> issued (clear_000 shop (Names [''items''])) = [Write (Clear ''items'')]
   \<and> promise (run (clear shop (Names [''items''])) [Error (JDOMException UnknownError) Null, Abort])
       = Resolved Undefined
   \<and> promise (run (clear_000 shop (Names [''items''])) [Success Undefined, Complete])
       = Resolved (JBool True)"
proof -
  have h: "db shop = Some shop_db" "named (Names [''items'']) \<noteq> []"
    "\<forall>n\<in>set (named (Names [''items''])). contains shop_db n"
    by (simp_all add: shop_def shop_db_def named_def contains_def)
  show ?thesis
    using h
      clear_versions [of shop "Names [''items'']" "[Error (JDOMException UnknownError) Null, Abort]"
        shop_db "[Undefined]" "[]" Null Null]
    by (auto simp: named_def)
qed

section \<open>The instance and its connection\<close>

lemma transaction_handle: "snd (transaction this sn m) = this"
  by (simp add: transaction_def split: option.splits sum.splits)

lemma operation_handle:
  "handle (get_with r this store q index) = this"
  "handle (getAll_with r this store q' index) = this"
  "handle (add_with r this store data key) = this"
  "handle (put_with r this store data key) = this"
  "handle (delete_with r this store q) = this"
  "handle (clear this sn) = this"
  "handle (clear_000 this sn) = this"
  using transaction_handle [of this "Name store" None]
    transaction_handle [of this "Name store" "Some Readwrite"]
    transaction_handle [of this sn "Some Readwrite"]
  by (auto simp: get_with_def getAll_with_def add_with_def put_with_def delete_with_def
      clear_def clear_000_def acquire_def started_def split: prod.splits sum.splits option.splits)

lemma store_record_schema:
  "store_record b s v key = Inr (k, s') \<Longrightarrow>
   store_keyPath s' = store_keyPath s \<and> store_autoIncrement s' = store_autoIncrement s
   \<and> store_indexes s' = store_indexes s"
  by (auto simp: store_record_def store_indexes_def Let_def split: sum.splits if_splits)

lemma execute_schema: "execute d w = Inr (v, d') \<Longrightarrow> schema d' = schema d"
proof (cases w)
  case (Add n x key)
  assume "execute d w = Inr (v, d')"
  with Add show ?thesis
    by (auto simp: schema_def fun_eq_iff split: option.splits sum.splits dest: store_record_schema)
next
  case (Put n x key)
  assume "execute d w = Inr (v, d')"
  with Put show ?thesis
    by (auto simp: schema_def fun_eq_iff split: option.splits sum.splits dest: store_record_schema)
next
  case (Delete n q)
  assume "execute d w = Inr (v, d')"
  with Delete show ?thesis
    by (auto simp: schema_def store_indexes_def fun_eq_iff split: option.splits)
next
  case (Clear n)
  assume "execute d w = Inr (v, d')"
  with Clear show ?thesis
    by (auto simp: schema_def store_indexes_def fun_eq_iff split: option.splits)
qed

lemma transact_schema:
  "schema d = schema d0 \<Longrightarrow> schema (snd (transact d0 d ws)) = schema d0"
proof (induction ws arbitrary: d)
  case Nil
  then show ?case by simp
next
  case (Cons w ws)
  show ?case
  proof (cases "execute d w")
    case (Inl e)
    then show ?thesis by simp
  next
    case (Inr r)
    obtain v d' where r: "r = (v, d')" by (cases r)
    have "schema d' = schema d0"
      using execute_schema [of d w v d'] Inr r Cons.prems by simp
    from Cons.IH [OF this] Inr r show ?thesis
      by (auto split: prod.splits)
  qed
qed

text \<open>
  Claim C9. No operation changes the instance: after \<open>transaction\<close>, and after \<open>get\<close>,
  \<open>getAll\<close>, \<open>add\<close>, \<open>put\<close>, \<open>delete\<close> or \<open>clear\<close> (both versions) and any events that
  follow, the instance is the one the operation was called on. The write requests that
  a transaction runs change records only: the connection's \<open>onversionchange\<close> and the
  stores' names, key paths, auto-increment flags and indexes stay as they are. Of the
  code that runs outside the operations, the handlers of \<open>versionchange\<close>, \<open>blocked\<close>
  and \<open>error\<close> leave the instance as it is, the methods that set the handlers leave
  \<open>this.db\<close> as it is, and the constructor leaves it \<open>undefined\<close>; the handlers of
  \<open>upgradeneeded\<close> and \<open>success\<close> assign it.
\<close>

theorem operations_frame:
  "snd (transaction this sn m) = this
 \<and> handle (run (get this store q index) evs) = this
 \<and> handle (run (getAll this store q' index) evs) = this
 \<and> handle (run (add this store data key) evs) = this
 \<and> handle (run (put this store data key) evs) = this
 \<and> handle (run (delete this store q) evs) = this
 \<and> handle (run (clear this sn) evs) = this
 \<and> handle (run (get_000 this store q index) evs) = this
 \<and> handle (run (getAll_000 this store q' index) evs) = this
 \<and> handle (run (add_000 this store data key) evs) = this
 \<and> handle (run (put_000 this store data key) evs) = this
 \<and> handle (run (delete_000 this store q) evs) = this
 \<and> handle (run (clear_000 this sn) evs) = this
 \<and> schema (snd (transact d d ws)) = schema d
 \<and> fst (versionchange this old new) = this
 \<and> fst (blocked this old new) = this
 \<and> fst (error this e) = this
 \<and> db (handleUpgradeNeeded this) = db this
 \<and> db (handleSuccess this) = db this
 \<and> db (handleBlocked this) = db this
 \<and> db (handleError this) = db this
 \<and> (indexedDB w = Some reqs \<and> 0 < v \<longrightarrow>
       (\<exists>new. fst (constructor w n v su hs) = Inr new \<and> db new = None))
 \<and> db (fst (upgradeneeded this result)) \<noteq> None
 \<and> db (success this result) \<noteq> None"
proof -
  have ops: "handle (run (get this store q index) evs) = this
 \<and> handle (run (getAll this store q' index) evs) = this
 \<and> handle (run (add this store data key) evs) = this
 \<and> handle (run (put this store data key) evs) = this
 \<and> handle (run (delete this store q) evs) = this
 \<and> handle (run (clear this sn) evs) = this
 \<and> handle (run (get_000 this store q index) evs) = this
 \<and> handle (run (getAll_000 this store q' index) evs) = this
 \<and> handle (run (add_000 this store data key) evs) = this
 \<and> handle (run (put_000 this store data key) evs) = this
 \<and> handle (run (delete_000 this store q) evs) = this
 \<and> handle (run (clear_000 this sn) evs) = this"
    by (simp add: run_fields operation_handle get_def getAll_def add_def put_def delete_def
        get_000_def getAll_000_def add_000_def put_000_def delete_000_def)
  have eng: "schema (snd (transact d d ws)) = schema d"
    by (simp add: transact_schema)
  have cont: "fst (versionchange this old new) = this
 \<and> fst (blocked this old new) = this
 \<and> fst (error this e) = this
 \<and> db (handleUpgradeNeeded this) = db this
 \<and> db (handleSuccess this) = db this
 \<and> db (handleBlocked this) = db this
 \<and> db (handleError this) = db this"
    by (simp add: versionchange_def blocked_def error_def handleUpgradeNeeded_def
        handleSuccess_def handleBlocked_def handleError_def)
  have con: "indexedDB w = Some reqs \<and> 0 < v \<longrightarrow>
       (\<exists>new. fst (constructor w n v su hs) = Inr new \<and> db new = None)"
    by (simp add: constructor_def handleUpgradeNeeded_def
        handleSuccess_def handleBlocked_def handleError_def)
  have asg: "db (fst (upgradeneeded this result)) \<noteq> None \<and> db (success this result) \<noteq> None"
    by (simp add: upgradeneeded_def success_def split: sum.splits)
  from ops eng cont con asg show ?thesis
    by (simp add: transaction_handle)
qed

theorem operations_frame_witness:
  "handle (run (add shop ''items'' (JObject [(''color'', JStr ''blue'')]) None)
             [Success (JNum 2), Complete]) = shop
   \<and> handle (run (get shop_unopened ''items'' (QKey (KNum 1)) None) []) = shop_unopened
   \<and> schema (snd (transact shop_db shop_db
                     [Add ''items'' (JObject [(''color'', JStr ''blue'')]) None])) = schema shop_db
   \<and> map_option (\<lambda>s. store_records s (KNum 2))
        (stores (snd (transact shop_db shop_db
                        [Add ''items'' (JObject [(''color'', JStr ''blue'')]) None])) ''items'')
       = Some (Some (JObject [(''color'', JStr ''blue''), (''id'', JNum 2)]))
   \<and> db (success shop_unopened shop_db) = Some shop_db"
proof -
  have r: "map_option (\<lambda>s. store_records s (KNum 2))
        (stores (snd (transact shop_db shop_db
                        [Add ''items'' (JObject [(''color'', JStr ''blue'')]) None])) ''items'')
       = Some (Some (JObject [(''color'', JStr ''blue''), (''id'', JNum 2)]))"
    by (simp add: shop_db_def shop_store_def store_record_def record_key_def key_path_def Let_def
        record_at_def record_value_def next_keygen_def breaks_unique_def index_key_def
        store_records_def)
  have s: "db (success shop_unopened shop_db) = Some shop_db"
    by (simp add: success_def has_hook_def shop_unopened_def)
  show ?thesis
    using r s
      operations_frame [of shop "Name ''items''" None "''items''" "QKey (KNum 1)" None
        "[Success (JNum 2), Complete]" None "JObject [(''color'', JStr ''blue'')]" None
        shop_db "[Add ''items'' (JObject [(''color'', JStr ''blue'')]) None]"]
      operations_frame [of shop_unopened "Name ''items''" None "''items''" "QKey (KNum 1)" None "[]"]
    by simp
qed

end
